theory Spec2Isabelle
  imports Complex_Main "HOL-Library.Sublist" "HOL-Library.Log_Nat"
begin

section \<open>Strings\<close>

text \<open>
  A JavaScript string is modelled as a \<open>string\<close> (a list of characters). The model covers
  the ASCII range: \<open>toLowerCase\<close> maps \<open>A\<close>..\<open>Z\<close> to \<open>a\<close>..\<open>z\<close> and leaves every other
  character as it is.
\<close>

definition lowerChar :: "char \<Rightarrow> char" where
  "lowerChar c =
     (let n = (of_char c :: nat) in if 65 \<le> n \<and> n \<le> 90 then char_of (n + 32) else c)"

definition toLowerCase :: "string \<Rightarrow> string" where
  "toLowerCase text = map lowerChar text"

text \<open>\<open>text.includes(keyword)\<close>: the keyword occurs as a contiguous run of \<open>text\<close>.\<close>

fun startsWith :: "string \<Rightarrow> string \<Rightarrow> bool" where
  "startsWith text [] = True"
| "startsWith [] (k # ks) = False"
| "startsWith (c # cs) (k # ks) = (c = k \<and> startsWith cs ks)"

fun includesStr :: "string \<Rightarrow> string \<Rightarrow> bool" where
  "includesStr [] keyword = (keyword = [])"
| "includesStr (c # cs) keyword = (startsWith (c # cs) keyword \<or> includesStr cs keyword)"

section \<open>Mood classifier (MentalHealthCard.tsx, analyzeMood)\<close>

datatype mood = Happy | Calm | Motivated | Stressed | Lonely

text \<open>The object literal \<open>moodKeywords\<close>, as an association list in declaration order
  (the order in which \<open>Object.entries\<close> visits its string keys).\<close>

definition moodKeywords :: "(mood \<times> string list) list" where
  "moodKeywords =
    [(Happy, [''happy'', ''joy'', ''excited'', ''great'', ''awesome'', ''wonderful'',
              ''amazing'', ''fantastic'', ''good'', ''positive'', ''cheerful'']),
     (Calm, [''calm'', ''peaceful'', ''relaxed'', ''serene'', ''tranquil'', ''quiet'',
             ''content'', ''balanced'', ''zen'', ''steady'']),
     (Motivated, [''motivated'', ''determined'', ''focused'', ''energetic'', ''productive'',
                  ''driven'', ''ambitious'', ''goal'', ''achieve'', ''success'']),
     (Stressed, [''stressed'', ''anxious'', ''worried'', ''overwhelmed'', ''pressure'',
                 ''deadline'', ''exam'', ''nervous'', ''tense'', ''frustrated'']),
     (Lonely, [''lonely'', ''alone'', ''isolated'', ''sad'', ''depressed'', ''empty'',
               ''disconnected'', ''missing'', ''solitary'', ''withdrawn''])]"

text \<open>The keyword array stored under one key of \<open>moodKeywords\<close>.\<close>

definition keywordsOf :: "mood \<Rightarrow> string list" where
  "keywordsOf m = (case map_of moodKeywords m of Some ks \<Rightarrow> ks | None \<Rightarrow> [])"

text \<open>The inner \<open>keywords.forEach\<close>: one increment for each keyword that the lowercased
  text includes.\<close>

definition keywordScore :: "string \<Rightarrow> string list \<Rightarrow> nat" where
  "keywordScore lowerText keywords =
     fold (\<lambda>keyword score. if includesStr lowerText keyword then score + 1 else score) keywords 0"

text \<open>The body of the outer \<open>forEach\<close>, on the pair \<open>(maxScore, detectedMood)\<close>.\<close>

definition moodStep :: "string \<Rightarrow> mood \<times> string list \<Rightarrow> nat \<times> mood \<Rightarrow> nat \<times> mood" where
  "moodStep lowerText entry acc =
     (let score = keywordScore lowerText (snd entry)
      in if score > fst acc then (score, fst entry) else acc)"

fun moodScoreMap :: "mood \<Rightarrow> int" where
  "moodScoreMap Calm = 1"
| "moodScoreMap Motivated = 2"
| "moodScoreMap Happy = 3"
| "moodScoreMap Stressed = 4"
| "moodScoreMap Lonely = 5"

definition analyzeMood :: "string \<Rightarrow> mood \<times> int" where
  "analyzeMood text =
     (let lowerText = toLowerCase text;
          detectedMood = snd (fold (moodStep lowerText) moodKeywords (0, Calm))
      in (detectedMood, moodScoreMap detectedMood))"

text \<open>The number of keywords of mood \<open>m\<close> that match a text: the \<open>score\<close> that the loop
  computes for \<open>m\<close>.\<close>

definition matchCount :: "mood \<Rightarrow> string \<Rightarrow> nat" where
  "matchCount m text = keywordScore (toLowerCase text) (keywordsOf m)"

text \<open>The iteration order of the outer loop.\<close>

definition moodOrder :: "mood list" where
  "moodOrder = map fst moodKeywords"

section \<open>JavaScript numbers\<close>

text \<open>
  A JavaScript number is an IEEE 754 double (binary64). A finite double is modelled by the
  rational number it denotes, next to the two infinities and NaN, and every arithmetic
  operation rounds its exact result to the nearest double. The sign of a zero is not
  kept: both zeros print alike, and the card divides by integers only.
\<close>

datatype jsnum = Num rat | PosInf | NegInf | NaN

text \<open>The exponent \<open>e\<close> of a positive rational \<open>a\<close>: the integer with
  \<open>2^e \<le> a < 2^(e+1)\<close>, found from the bit lengths of numerator and denominator.\<close>

definition floorLog2 :: "rat \<Rightarrow> int" where
  "floorLog2 a =
     (let p = fst (quotient_of a); q = snd (quotient_of a); d = bitlen p - bitlen q
      in if 2 powi d \<le> a then d else d - 1)"

text \<open>The nearest integer, a tie going to the even one.\<close>

definition roundHalfEven :: "rat \<Rightarrow> int" where
  "roundHalfEven x =
     (let f = \<lfloor>x\<rfloor>; r = x - of_int f
      in if r < 1 / 2 then f
         else if 1 / 2 < r then f + 1
         else if even f then f else f + 1)"

text \<open>
  Rounding a rational to a double, to nearest with ties to even. The significand has 53
  bits, so the last place of a number with exponent \<open>e\<close> is \<open>2^(e - 52)\<close>, and no smaller
  than \<open>2^-1074\<close> (the subnormal numbers); a result of \<open>2^1024\<close> or more overflows to an
  infinity.
\<close>

definition roundDouble :: "rat \<Rightarrow> jsnum" where
  "roundDouble x =
     (if x = 0 then Num 0
      else
        (let a = \<bar>x\<bar>;
             q = max (floorLog2 a - 52) (- 1074);
             m = roundHalfEven (a / 2 powi q);
             y = of_int m * 2 powi q
         in if 2 powi 1024 \<le> y then (if 0 < x then PosInf else NegInf)
            else Num (if 0 < x then y else - y)))"

text \<open>An integer column of a row, as the number that the card receives.\<close>

definition jsNumber :: "int \<Rightarrow> jsnum" where
  "jsNumber n = roundDouble (of_int n)"

text \<open>\<open>x / y\<close>: a zero divisor gives an infinity, or NaN for \<open>0 / 0\<close>.\<close>

fun jsDivide :: "jsnum \<Rightarrow> jsnum \<Rightarrow> jsnum" where
  "jsDivide NaN y = NaN"
| "jsDivide (Num a) NaN = NaN"
| "jsDivide PosInf NaN = NaN"
| "jsDivide NegInf NaN = NaN"
| "jsDivide (Num a) (Num b) =
     (if b \<noteq> 0 then roundDouble (a / b)
      else if 0 < a then PosInf
      else if a < 0 then NegInf
      else NaN)"
| "jsDivide (Num a) PosInf = Num 0"
| "jsDivide (Num a) NegInf = Num 0"
| "jsDivide PosInf (Num b) = (if b < 0 then NegInf else PosInf)"
| "jsDivide NegInf (Num b) = (if b < 0 then PosInf else NegInf)"
| "jsDivide PosInf PosInf = NaN"
| "jsDivide PosInf NegInf = NaN"
| "jsDivide NegInf PosInf = NaN"
| "jsDivide NegInf NegInf = NaN"

text \<open>\<open>x * 100\<close>.\<close>

fun times100 :: "jsnum \<Rightarrow> jsnum" where
  "times100 (Num x) = roundDouble (x * 100)"
| "times100 PosInf = PosInf"
| "times100 NegInf = NegInf"
| "times100 NaN = NaN"

text \<open>\<open>Math.min(x, y)\<close>: NaN if an argument is NaN.\<close>

fun mathMin :: "jsnum \<Rightarrow> jsnum \<Rightarrow> jsnum" where
  "mathMin NaN y = NaN"
| "mathMin x NaN = NaN"
| "mathMin NegInf y = NegInf"
| "mathMin x NegInf = NegInf"
| "mathMin PosInf y = y"
| "mathMin x PosInf = x"
| "mathMin (Num x) (Num y) = Num (min x y)"

text \<open>\<open>Math.round(x)\<close>: the nearest integer, a half rounded up. The result is a double
  for every double \<open>x\<close>.\<close>

fun mathRound :: "jsnum \<Rightarrow> jsnum" where
  "mathRound (Num x) = Num (of_int (round x))"
| "mathRound PosInf = PosInf"
| "mathRound NegInf = NegInf"
| "mathRound NaN = NaN"

section \<open>Exam progress (ExamTrackerCard.tsx)\<close>

record exam =
  exam_id :: string
  exam_subject :: string
  exam_date :: string
  max_marks :: int
  target_marks :: int
  obtained_marks :: "int option"
  created_at :: string

definition getProgressPercentage :: "int option \<Rightarrow> int \<Rightarrow> jsnum" where
  "getProgressPercentage obtained target =
     (case obtained of
        None \<Rightarrow> Num 0
      | Some ob \<Rightarrow> mathMin (times100 (jsDivide (jsNumber ob) (jsNumber target))) (Num 100))"

text \<open>The \<open>value\<close> that the card passes to the progress bar of one exam, and the number
  that it prints before the percent sign.\<close>

definition progressValue :: "exam \<Rightarrow> jsnum" where
  "progressValue e =
     (if obtained_marks e \<noteq> None
      then getProgressPercentage (obtained_marks e) (target_marks e)
      else times100 (jsDivide (jsNumber (target_marks e)) (jsNumber (max_marks e))))"

definition progressLabel :: "exam \<Rightarrow> jsnum" where
  "progressLabel e =
     (if obtained_marks e \<noteq> None
      then mathRound (getProgressPercentage (obtained_marks e) (target_marks e))
      else mathRound (times100 (jsDivide (jsNumber (target_marks e)) (jsNumber (max_marks e)))))"

section \<open>parseInt\<close>

definition isWhitespace :: "char \<Rightarrow> bool" where
  "isWhitespace c = (c \<in> set [CHR 0x09, CHR 0x0A, CHR 0x0B, CHR 0x0C, CHR 0x0D, CHR '' ''])"

text \<open>The value of a character as a digit of the given radix (10 or 16).\<close>

definition digitOf :: "nat \<Rightarrow> char \<Rightarrow> nat option" where
  "digitOf radix c =
     (let n = (of_char c :: nat);
          d = (if 48 \<le> n \<and> n \<le> 57 then Some (n - 48)
               else if 97 \<le> n \<and> n \<le> 102 then Some (n - 87)
               else if 65 \<le> n \<and> n \<le> 70 then Some (n - 55)
               else None)
      in case d of None \<Rightarrow> None | Some v \<Rightarrow> if v < radix then Some v else None)"

definition digitsValue :: "nat \<Rightarrow> string \<Rightarrow> int" where
  "digitsValue radix ds =
     foldl (\<lambda>acc c. acc * int radix + (case digitOf radix c of Some v \<Rightarrow> int v | None \<Rightarrow> 0)) 0 ds"

text \<open>
  \<open>parseInt(s)\<close> with no radix argument: leading white space is skipped, a sign is read,
  a prefix \<open>0x\<close> or \<open>0X\<close> selects radix 16, and the longest run of digits is the value.
  \<open>None\<close> stands for NaN (no digit). Values are exact integers.
\<close>

definition parseInt :: "string \<Rightarrow> int option" where
  "parseInt s =
     (let s1 = dropWhile isWhitespace s;
          (sign, s2) = (case s1 of
                          c # rest \<Rightarrow> if c = CHR ''-'' then (-1, rest)
                                      else if c = CHR ''+'' then (1, rest)
                                      else (1, s1)
                        | [] \<Rightarrow> (1::int, s1));
          (radix, s3) = (case s2 of
                           c # x # rest \<Rightarrow>
                             if c = CHR ''0'' \<and> (x = CHR ''x'' \<or> x = CHR ''X'') then (16, rest)
                             else (10, s2)
                         | _ \<Rightarrow> (10::nat, s2));
          z = takeWhile (\<lambda>c. digitOf radix c \<noteq> None) s3
      in if z = [] then None else Some (sign * digitsValue radix z))"

text \<open>\<open>a > b\<close> on two results of \<open>parseInt\<close>: false when either is NaN.\<close>

definition jsGreater :: "int option \<Rightarrow> int option \<Rightarrow> bool" where
  "jsGreater a b = (case (a, b) of (Some x, Some y) \<Rightarrow> x > y | _ \<Rightarrow> False)"

section \<open>The backend and the user interface\<close>

text \<open>
  The rows that the components send to the tables \<open>journal_entries\<close> and \<open>exams\<close>, and the
  table \<open>profiles\<close> reduced to the columns \<open>user_id\<close> (unique) and \<open>wellness_points\<close>
  (nullable).
\<close>

record journal_row =
  user_id :: string
  content :: string
  mood_score :: int
  mood_name :: mood

record exam_row =
  er_user_id :: string
  er_subject :: string
  er_date :: string
  er_max_marks :: "int option"
  er_target_marks :: "int option"

text \<open>The requests that the components issue to the backend.\<close>

datatype request =
    InsertJournal journal_row
  | InsertExam exam_row
  | SelectPoints string
  | UpdatePoints string int
  | InvokeChat string mood

record toast =
  title :: string
  description :: string
  destructive :: bool

datatype callback = OnWellnessPointsUpdate | OnExamAdded

record world =
  journal_entries :: "journal_row list"
  exams :: "exam_row list"
  profiles :: "(string \<times> int option) list"
  requests :: "request list"
  toasts :: "toast list"
  callbacks :: "callback list"

text \<open>
  What the backend answers to the requests of one user action. An error is given by its
  message; \<open>insert_error\<close> and \<open>update_error\<close> are \<open>None\<close> when the statement is applied;
  \<open>select_fails\<close> makes the select return no data; \<open>chat_result\<close> is the error or the
  response text of the chat function.
\<close>

record remote =
  insert_error :: "string option"
  select_fails :: bool
  update_error :: "string option"
  chat_result :: "string + string"

text \<open>\<open>from("profiles").select("wellness_points").eq("user_id", userId).single()\<close>:
  the data is null unless exactly one row matches.\<close>

definition selectSingle :: "(string \<times> int option) list \<Rightarrow> string \<Rightarrow> int option option" where
  "selectSingle rows userId =
     (case filter (\<lambda>row. fst row = userId) rows of
        [row] \<Rightarrow> Some (snd row)
      | _ \<Rightarrow> None)"

text \<open>\<open>currentProfile?.wellness_points || 0\<close>.\<close>

definition pointsOrZero :: "int option option \<Rightarrow> int" where
  "pointsOrZero currentProfile =
     (case currentProfile of Some (Some p) \<Rightarrow> p | _ \<Rightarrow> 0)"

text \<open>\<open>from("profiles").update({ wellness_points: newPoints }).eq("user_id", userId)\<close>.\<close>

definition updateRows :: "(string \<times> int option) list \<Rightarrow> string \<Rightarrow> int \<Rightarrow> (string \<times> int option) list" where
  "updateRows rows userId newPoints =
     map (\<lambda>row. if fst row = userId then (fst row, Some newPoints) else row) rows"

text \<open>The select request, logged, with the data it returns.\<close>

definition selectPoints :: "remote \<Rightarrow> string \<Rightarrow> world \<Rightarrow> world \<times> int option option" where
  "selectPoints r userId w =
     (w\<lparr>requests := requests w @ [SelectPoints userId]\<rparr>,
      if select_fails r then None else selectSingle (profiles w) userId)"

text \<open>The update request, logged, with the error it returns.\<close>

definition updatePoints :: "remote \<Rightarrow> string \<Rightarrow> int \<Rightarrow> world \<Rightarrow> world \<times> string option" where
  "updatePoints r userId newPoints w =
     (let w1 = w\<lparr>requests := requests w @ [UpdatePoints userId newPoints]\<rparr>
      in case update_error r of
           Some e \<Rightarrow> (w1, Some e)
         | None \<Rightarrow> (w1\<lparr>profiles := updateRows (profiles w1) userId newPoints\<rparr>, None))"

text \<open>The value that an action computes from its select: the points it adds its delta
  to.\<close>

definition currentPoints :: "remote \<Rightarrow> string \<Rightarrow> world \<Rightarrow> int" where
  "currentPoints r userId w = pointsOrZero (snd (selectPoints r userId w))"

definition showToast :: "toast \<Rightarrow> world \<Rightarrow> world" where
  "showToast t w = w\<lparr>toasts := toasts w @ [t]\<rparr>"

text \<open>\<open>error.message || fallback\<close>.\<close>

definition messageOr :: "string \<Rightarrow> string \<Rightarrow> string" where
  "messageOr msg fallback = (if msg = [] then fallback else msg)"

fun moodName :: "mood \<Rightarrow> string" where
  "moodName Happy = ''Happy''"
| "moodName Calm = ''Calm''"
| "moodName Motivated = ''Motivated''"
| "moodName Stressed = ''Stressed''"
| "moodName Lonely = ''Lonely''"

section \<open>Journal submission and quick actions (MentalHealthCard.tsx)\<close>

datatype sender = User | Assistant

datatype quick_action = breathing | meditation | mindfulness

text \<open>The content of a chat message: a text, or the fixed text of a quick action.\<close>

datatype message_content = Text string | ActionMessage quick_action

record message =
  msg_type :: sender
  msg_content :: message_content

record card_state =
  journalText :: string
  currentMood :: mood
  messages :: "message list"
  isLoading :: bool

text \<open>\<open>!journalText.trim()\<close>: the text is empty once the white space is trimmed.\<close>

fun isBlank :: "string \<Rightarrow> bool" where
  "isBlank [] = True"
| "isBlank (c # cs) = (isWhitespace c \<and> isBlank cs)"

text \<open>The \<open>catch\<close> and \<open>finally\<close> blocks of \<open>handleJournalSubmit\<close>.\<close>

definition journalCatch :: "string \<Rightarrow> world \<times> card_state \<Rightarrow> world \<times> card_state" where
  "journalCatch msg ws =
     (showToast \<lparr>title = ''Error'',
                 description = messageOr msg ''Failed to save journal entry'',
                 destructive = True\<rparr> (fst ws),
      (snd ws)\<lparr>isLoading := False\<rparr>)"

definition journalEntryOf :: "string \<Rightarrow> string \<Rightarrow> journal_row" where
  "journalEntryOf userId text =
     \<lparr>user_id = userId, content = text,
      mood_score = snd (analyzeMood text), mood_name = fst (analyzeMood text)\<rparr>"

definition handleJournalSubmit :: "remote \<Rightarrow> string \<Rightarrow> world \<times> card_state \<Rightarrow> world \<times> card_state" where
  "handleJournalSubmit r userId ws =
     (let w = fst ws; s = snd ws; text = journalText s
      in if isBlank text then ws
         else
           (let s1 = s\<lparr>isLoading := True\<rparr>;
                mood = fst (analyzeMood text);
                entry = journalEntryOf userId text;
                w1 = w\<lparr>requests := requests w @ [InsertJournal entry]\<rparr>
            in (case insert_error r of
                  Some e \<Rightarrow> journalCatch e (w1, s1)
                | None \<Rightarrow>
                   (let w2 = w1\<lparr>journal_entries := journal_entries w1 @ [entry]\<rparr>;
                        (w3, currentProfile) = selectPoints r userId w2;
                        newPoints = pointsOrZero currentProfile + 5;
                        (w4, pointsError) = updatePoints r userId newPoints w3
                    in (case pointsError of
                          Some e \<Rightarrow> journalCatch e (w4, s1)
                        | None \<Rightarrow>
                           (let s2 = s1\<lparr>messages := messages s1 @
                                       [\<lparr>msg_type = User, msg_content = Text text\<rparr>]\<rparr>;
                                w5 = w4\<lparr>requests := requests w4 @ [InvokeChat text mood]\<rparr>
                            in (case chat_result r of
                                  Inl e \<Rightarrow> journalCatch e (w5, s2)
                                | Inr reply \<Rightarrow>
                                   (let s3 = s2\<lparr>messages := messages s2 @
                                               [\<lparr>msg_type = Assistant, msg_content = Text reply\<rparr>]\<rparr>;
                                        s4 = s3\<lparr>currentMood := mood\<rparr>;
                                        s5 = s4\<lparr>journalText := []\<rparr>;
                                        w6 = w5\<lparr>callbacks := callbacks w5 @ [OnWellnessPointsUpdate]\<rparr>;
                                        w7 = showToast
                                               \<lparr>title = ''Journal saved!'',
                                                description = ''Mood detected: '' @ moodName mood @
                                                              ''. +5 wellness points earned!'',
                                                destructive = False\<rparr> w6
                                    in (w7, s5\<lparr>isLoading := False\<rparr>)))))))))"

definition handleQuickAction :: "remote \<Rightarrow> string \<Rightarrow> quick_action \<Rightarrow> world \<times> card_state \<Rightarrow> world \<times> card_state" where
  "handleQuickAction r userId action ws =
     (let w = fst ws; s = snd ws;
          s1 = s\<lparr>messages := messages s @
                   [\<lparr>msg_type = Assistant, msg_content = ActionMessage action\<rparr>]\<rparr>;
          (w1, currentProfile) = selectPoints r userId w;
          newPoints = pointsOrZero currentProfile + 3;
          (w2, pointsError) = updatePoints r userId newPoints w1;
          w3 = w2\<lparr>callbacks := callbacks w2 @ [OnWellnessPointsUpdate]\<rparr>;
          w4 = showToast \<lparr>title = ''Great job!'',
                          description = ''+3 wellness points for practicing self-care!'',
                          destructive = False\<rparr> w3
      in (w4, s1))"

section \<open>Adding an exam (AddExamModal.tsx)\<close>

text \<open>The form: the date is \<open>None\<close> when no date is picked, and otherwise the text that
  \<open>toISOString\<close> gives for it.\<close>

record form_data =
  subject :: string
  date :: "string option"
  maxMarks :: string
  targetMarks :: string

record modal_state =
  formData :: form_data
  loading :: bool

definition emptyForm :: form_data where
  "emptyForm = \<lparr>subject = [], date = None, maxMarks = [], targetMarks = []\<rparr>"

definition examCatch :: "string \<Rightarrow> world \<times> modal_state \<Rightarrow> world \<times> modal_state" where
  "examCatch msg ws =
     (showToast \<lparr>title = ''Error'',
                 description = messageOr msg ''Failed to add exam'',
                 destructive = True\<rparr> (fst ws),
      (snd ws)\<lparr>loading := False\<rparr>)"

text \<open>The row that \<open>handleSubmit\<close> inserts; the date is
  \<open>formData.date.toISOString().split('T')[0]\<close>.\<close>

definition examRowOf :: "string \<Rightarrow> form_data \<Rightarrow> int option \<Rightarrow> int option \<Rightarrow> exam_row" where
  "examRowOf userId f maxMarksN targetMarksN =
     \<lparr>er_user_id = userId, er_subject = subject f,
      er_date = takeWhile (\<lambda>c. c \<noteq> CHR ''T'') (case date f of Some d \<Rightarrow> d | None \<Rightarrow> []),
      er_max_marks = maxMarksN, er_target_marks = targetMarksN\<rparr>"

definition handleSubmit :: "remote \<Rightarrow> string \<Rightarrow> world \<times> modal_state \<Rightarrow> world \<times> modal_state" where
  "handleSubmit r userId ws =
     (let w = fst ws; s = snd ws; f = formData s
      in if subject f = [] \<or> date f = None \<or> maxMarks f = [] \<or> targetMarks f = []
         then (showToast \<lparr>title = ''Error'', description = ''Please fill in all fields'',
                          destructive = True\<rparr> w, s)
         else
           (let maxMarksN = parseInt (maxMarks f);
                targetMarksN = parseInt (targetMarks f)
            in if jsGreater targetMarksN maxMarksN
               then (showToast \<lparr>title = ''Error'',
                                description = ''Target marks cannot be higher than maximum marks'',
                                destructive = True\<rparr> w, s)
               else
                 (let s1 = s\<lparr>loading := True\<rparr>;
                      row = examRowOf userId f maxMarksN targetMarksN;
                      w1 = w\<lparr>requests := requests w @ [InsertExam row]\<rparr>
                  in (case insert_error r of
                        Some e \<Rightarrow> examCatch e (w1, s1)
                      | None \<Rightarrow>
                         (let w2 = w1\<lparr>exams := exams w1 @ [row]\<rparr>;
                              (w3, currentProfile) = selectPoints r userId w2;
                              newPoints = pointsOrZero currentProfile + 2;
                              (w4, pointsError) = updatePoints r userId newPoints w3;
                              w5 = showToast \<lparr>title = ''Exam added successfully!'',
                                              description = ''+2 wellness points for staying organized!'',
                                              destructive = False\<rparr> w4;
                              s2 = s1\<lparr>formData := emptyForm\<rparr>;
                              w6 = w5\<lparr>callbacks := callbacks w5 @ [OnExamAdded]\<rparr>
                          in (w6, s2\<lparr>loading := False\<rparr>))))))"

section \<open>The chat function (chat-assistant)\<close>

text \<open>
  Values of the handler's variables: \<open>Undefined\<close>, a string, or an object whose content
  plays no role. Exceptions are values of \<open>js_error\<close>, and a block either returns or throws.
\<close>

datatype jsval = Undefined | Str string | Obj

datatype js_error =
    Error string
  | ReferenceError string
  | TypeError string
  | SyntaxError string

datatype 'a completion = Return 'a | Throw js_error

text \<open>The text of a response: the completion of the upstream API, or one of the fixed
  fallback texts of the source, named here by the key it is stored under.\<close>

datatype response_text =
    Upstream string
  | CalmText | MotivatedText | HappyText | StressedText | LonelyText
  | DefaultText
  | NotText

record http_response =
  status :: nat
  cors :: bool
  response :: "response_text option"

text \<open>A request: its method, and the fields of its JSON body (all strings), \<open>None\<close> when
  the body is not JSON and \<open>req.json()\<close> rejects.\<close>

record http_request =
  http_method :: string
  json :: "(string \<times> string) list option"

text \<open>What the call of the upstream API does: \<open>fetch\<close> rejects, the response is not ok
  (with its status), the body has no completion, or the completion arrives.\<close>

datatype upstream =
    FetchFails string
  | NotOk string
  | NoChoices
  | Completion string

text \<open>
  Variables are looked up in a scope, the bindings visible at a point of the program,
  innermost first. Reading a name that no enclosing scope declares throws a
  \<open>ReferenceError\<close>.
\<close>

type_synonym scope = "(string \<times> jsval) list"

definition resolve :: "scope \<Rightarrow> string \<Rightarrow> jsval completion" where
  "resolve sc name =
     (case map_of sc name of
        Some v \<Rightarrow> Return v
      | None \<Rightarrow> Throw (ReferenceError (name @ '' is not defined'')))"

text \<open>The module declares \<open>openAIApiKey\<close> and \<open>corsHeaders\<close>; the handler's parameter is
  \<open>req\<close>.\<close>

definition moduleScope :: "string option \<Rightarrow> scope" where
  "moduleScope apiKey =
     [(''openAIApiKey'', case apiKey of Some k \<Rightarrow> Str k | None \<Rightarrow> Undefined),
      (''corsHeaders'', Obj)]"

definition handlerScope :: "string option \<Rightarrow> scope" where
  "handlerScope apiKey = (''req'', Obj) # moduleScope apiKey"

text \<open>\<open>const { message, mood } = await req.json()\<close> is the first statement of the
  \<open>try\<close> block: the two constants belong to that block.\<close>

definition field :: "(string \<times> string) list \<Rightarrow> string \<Rightarrow> jsval" where
  "field flds name = (case map_of flds name of Some v \<Rightarrow> Str v | None \<Rightarrow> Undefined)"

definition tryScope :: "string option \<Rightarrow> (string \<times> string) list \<Rightarrow> scope" where
  "tryScope apiKey flds =
     (''message'', field flds ''message'') # (''mood'', field flds ''mood'') #
     handlerScope apiKey"

text \<open>The \<open>catch (error)\<close> block sees its parameter and what encloses the \<open>try\<close>
  statement.\<close>

definition catchScope :: "string option \<Rightarrow> scope" where
  "catchScope apiKey = (''error'', Obj) # handlerScope apiKey"

definition falsy :: "jsval \<Rightarrow> bool" where
  "falsy v = (v = Undefined \<or> v = Str [])"

definition tryBlock :: "string option \<Rightarrow> http_request \<Rightarrow> upstream \<Rightarrow> http_response completion" where
  "tryBlock apiKey req up =
     (case json req of
        None \<Rightarrow> Throw (SyntaxError ''Unexpected token'')
      | Some flds \<Rightarrow>
         (let sc = tryScope apiKey flds
          in (case resolve sc ''openAIApiKey'' of
                Throw e \<Rightarrow> Throw e
              | Return key \<Rightarrow>
                 if falsy key then Throw (Error ''OpenAI API key not configured'')
                 else
                   (case resolve sc ''mood'' of
                      Throw e \<Rightarrow> Throw e
                    | Return mood \<Rightarrow>
                       (case resolve sc ''message'' of
                          Throw e \<Rightarrow> Throw e
                        | Return message \<Rightarrow>
                           (case up of
                              FetchFails msg \<Rightarrow> Throw (TypeError msg)
                            | NotOk st \<Rightarrow> Throw (Error (''OpenAI API error: '' @ st))
                            | NoChoices \<Rightarrow>
                                Throw (TypeError ''Cannot read properties of undefined'')
                            | Completion text \<Rightarrow>
                                Return \<lparr>status = 200, cors = True,
                                        response = Some (Upstream text)\<rparr>))))))"

text \<open>The object literal \<open>fallbackResponses\<close>, and the names that every object inherits
  from \<open>Object.prototype\<close>.\<close>

definition fallbackResponses :: "(string \<times> response_text) list" where
  "fallbackResponses =
     [(''Calm'', CalmText), (''Motivated'', MotivatedText), (''Happy'', HappyText),
      (''Stressed'', StressedText), (''Lonely'', LonelyText)]"

definition objectPrototypeKeys :: "string list" where
  "objectPrototypeKeys =
     [''constructor'', ''toString'', ''toLocaleString'', ''valueOf'', ''hasOwnProperty'',
      ''isPrototypeOf'', ''propertyIsEnumerable'', ''__proto__'', ''__defineGetter__'',
      ''__defineSetter__'', ''__lookupGetter__'', ''__lookupSetter__'']"

text \<open>The property key that a value is converted to.\<close>

fun propertyKey :: "jsval \<Rightarrow> string" where
  "propertyKey Undefined = ''undefined''"
| "propertyKey (Str s) = s"
| "propertyKey Obj = ''[object Object]''"

text \<open>\<open>fallbackResponses[mood] || "Thank you for sharing ..."\<close>: an own property gives its
  text, an inherited one is a function or an object and not a text, anything else gives
  the default.\<close>

definition fallbackMessage :: "jsval \<Rightarrow> response_text" where
  "fallbackMessage mood =
     (case map_of fallbackResponses (propertyKey mood) of
        Some t \<Rightarrow> t
      | None \<Rightarrow> if propertyKey mood \<in> set objectPrototypeKeys then NotText else DefaultText)"

definition catchBlock :: "string option \<Rightarrow> http_response completion" where
  "catchBlock apiKey =
     (case resolve (catchScope apiKey) ''mood'' of
        Throw e \<Rightarrow> Throw e
      | Return mood \<Rightarrow>
         Return \<lparr>status = 200, cors = True, response = Some (fallbackMessage mood)\<rparr>)"

text \<open>The function passed to \<open>serve\<close>. A \<open>Throw\<close> is a rejection of the handler: no
  response of the function is sent.\<close>

definition serveHandler :: "string option \<Rightarrow> http_request \<Rightarrow> upstream \<Rightarrow> http_response completion" where
  "serveHandler apiKey req up =
     (if http_method req = ''OPTIONS''
      then Return \<lparr>status = 200, cors = True, response = None\<rparr>
      else case tryBlock apiKey req up of
             Return resp \<Rightarrow> Return resp
           | Throw e \<Rightarrow> catchBlock apiKey)"

section \<open>Example data\<close>

definition examPending :: exam where
  "examPending = \<lparr>exam_id = ''e1'', exam_subject = ''Maths'', exam_date = ''2025-10-01'',
      max_marks = 100, target_marks = 80, obtained_marks = None, created_at = ''2025-09-17''\<rparr>"

definition formTooHigh :: form_data where
  "formTooHigh = \<lparr>subject = ''Maths'', date = Some ''2025-10-01T00:00:00.000Z'',
                  maxMarks = ''80'', targetMarks = ''90''\<rparr>"

definition formValid :: form_data where
  "formValid = \<lparr>subject = ''Maths'', date = Some ''2025-10-01T00:00:00.000Z'',
                maxMarks = ''100'', targetMarks = ''80''\<rparr>"

definition worldExample :: world where
  "worldExample = \<lparr>journal_entries = [], exams = [], profiles = [(''u1'', Some 10)],
                   requests = [], toasts = [], callbacks = []\<rparr>"

definition cardExample :: card_state where
  "cardExample = \<lparr>journalText = ''My EXAM deadline makes me nervous'', currentMood = Calm,
                  messages = [], isLoading = False\<rparr>"

definition remoteOk :: remote where
  "remoteOk = \<lparr>insert_error = None, select_fails = False, update_error = None,
               chat_result = Inr ''Take a short break.''\<rparr>"

definition remoteUpdateFails :: remote where
  "remoteUpdateFails = remoteOk\<lparr>update_error := Some ''permission denied''\<rparr>"

definition remoteChatFails :: remote where
  "remoteChatFails = remoteOk\<lparr>chat_result := Inl ''Edge Function returned a non-2xx status code''\<rparr>"

definition requestStressed :: http_request where
  "requestStressed =
     \<lparr>http_method = ''POST'',
      json = Some [(''message'', ''I have an exam tomorrow''), (''mood'', ''Stressed'')]\<rparr>"

section \<open>Properties of the strings\<close>

lemma startsWith_prefix: "startsWith t k \<longleftrightarrow> prefix k t"
  by (induction t k rule: startsWith.induct) auto

lemma includesStr_sublist: "includesStr t k \<longleftrightarrow> sublist k t"
  by (induction t) (auto simp: startsWith_prefix sublist_Cons_right)

text \<open>The score of a keyword list is the number of its keywords that occur in the text.\<close>

lemma fold_count_from:
  "fold (\<lambda>k n. if P k then n + 1 else n) ks n0 = n0 + length (filter P ks)"
  by (induction ks arbitrary: n0) auto

lemma keywordScore_count:
  "keywordScore lowerText ks = length (filter (\<lambda>k. sublist k lowerText) ks)"
  by (simp add: keywordScore_def fold_count_from includesStr_sublist)

section \<open>The mood classifier\<close>

text \<open>The outer loop keeps its accumulator when no entry scores above it, and otherwise
  ends on the first entry whose score is maximal.\<close>

lemma fold_moodStep_keep:
  "\<forall>e \<in> set entries. keywordScore lt (snd e) \<le> fst acc \<Longrightarrow>
   fold (moodStep lt) entries acc = acc"
  by (induction entries arbitrary: acc) (auto simp: moodStep_def Let_def)

lemma fold_moodStep_first_max:
  "i < length entries \<Longrightarrow>
   fst acc < keywordScore lt (snd (entries ! i)) \<Longrightarrow>
   \<forall>j < i. keywordScore lt (snd (entries ! j)) < keywordScore lt (snd (entries ! i)) \<Longrightarrow>
   \<forall>j < length entries. keywordScore lt (snd (entries ! j)) \<le> keywordScore lt (snd (entries ! i)) \<Longrightarrow>
   fold (moodStep lt) entries acc = (keywordScore lt (snd (entries ! i)), fst (entries ! i))"
proof (induction entries arbitrary: i acc)
  case Nil
  then show ?case by simp
next
  case (Cons e es)
  show ?case
  proof (cases i)
    case 0
    have step: "moodStep lt e acc = (keywordScore lt (snd e), fst e)"
      using Cons.prems(2) 0 by (simp add: moodStep_def Let_def)
    have "\<forall>x \<in> set es. keywordScore lt (snd x) \<le> keywordScore lt (snd e)"
    proof
      fix x assume "x \<in> set es"
      then obtain k where k: "k < length es" "es ! k = x"
        by (auto simp: in_set_conv_nth)
      from Cons.prems(4) k(1) have "keywordScore lt (snd ((e # es) ! Suc k)) \<le> keywordScore lt (snd ((e # es) ! i))"
        by auto
      with k 0 show "keywordScore lt (snd x) \<le> keywordScore lt (snd e)" by simp
    qed
    then have "fold (moodStep lt) es (keywordScore lt (snd e), fst e) = (keywordScore lt (snd e), fst e)"
      by (intro fold_moodStep_keep) simp
    with step 0 show ?thesis by simp
  next
    case (Suc i')
    let ?acc' = "moodStep lt e acc"
    have e_lt: "keywordScore lt (snd e) < keywordScore lt (snd (es ! i'))"
      using Cons.prems(3) Suc by fastforce
    have a1: "i' < length es" using Cons.prems(1) Suc by simp
    have a2: "fst ?acc' < keywordScore lt (snd (es ! i'))"
      using Cons.prems(2) e_lt Suc by (simp add: moodStep_def Let_def)
    have a3: "\<forall>j < i'. keywordScore lt (snd (es ! j)) < keywordScore lt (snd (es ! i'))"
      using Cons.prems(3) Suc by fastforce
    have a4: "\<forall>j < length es. keywordScore lt (snd (es ! j)) \<le> keywordScore lt (snd (es ! i'))"
      using Cons.prems(4) Suc by fastforce
    from Cons.IH [OF a1 a2 a3 a4] Suc show ?thesis by simp
  qed
qed

lemma moodOrder_eq: "moodOrder = [Happy, Calm, Motivated, Stressed, Lonely]"
  by (simp add: moodOrder_def moodKeywords_def)

lemma length_moodKeywords: "length moodKeywords = 5"
  by (simp add: moodKeywords_def)

lemma less_5_cases: "i < (5::nat) \<Longrightarrow> i = 0 \<or> i = 1 \<or> i = 2 \<or> i = 3 \<or> i = 4"
  by arith

lemma keywordsOf_nth:
  "i < 5 \<Longrightarrow> keywordsOf (moodOrder ! i) = snd (moodKeywords ! i)"
  by (drule less_5_cases) (auto simp: keywordsOf_def moodOrder_def moodKeywords_def)

lemma matchCount_nth:
  "i < 5 \<Longrightarrow> matchCount (moodOrder ! i) t = keywordScore (toLowerCase t) (snd (moodKeywords ! i))"
  by (simp add: matchCount_def keywordsOf_nth)

lemma fst_moodKeywords_nth: "i < 5 \<Longrightarrow> fst (moodKeywords ! i) = moodOrder ! i"
  by (simp add: moodOrder_def length_moodKeywords)


lemma analyzeMood_first_max:
  assumes i: "i < 5"
    and pos: "0 < matchCount (moodOrder ! i) t"
    and before: "\<forall>j < i. matchCount (moodOrder ! j) t < matchCount (moodOrder ! i) t"
    and all: "\<forall>j < 5. matchCount (moodOrder ! j) t \<le> matchCount (moodOrder ! i) t"
  shows "analyzeMood t = (moodOrder ! i, moodScoreMap (moodOrder ! i))"
proof -
  let ?lt = "toLowerCase t"
  have a1: "i < length moodKeywords" using i by (simp add: length_moodKeywords)
  have a2: "fst (0::nat, Calm) < keywordScore ?lt (snd (moodKeywords ! i))"
    using pos i by (simp add: matchCount_nth)
  have a3: "\<forall>j < i. keywordScore ?lt (snd (moodKeywords ! j)) < keywordScore ?lt (snd (moodKeywords ! i))"
    using before i by (auto simp: matchCount_nth [symmetric])
  have a4: "\<forall>j < length moodKeywords. keywordScore ?lt (snd (moodKeywords ! j)) \<le> keywordScore ?lt (snd (moodKeywords ! i))"
    using all i by (auto simp: matchCount_nth [symmetric] length_moodKeywords)
  from fold_moodStep_first_max [OF a1 a2 a3 a4]
  show ?thesis using i by (simp add: analyzeMood_def Let_def fst_moodKeywords_nth)
qed


lemma analyzeMood_first_max_mood:
  assumes pos: "0 < matchCount m t"
    and all: "\<forall>m'. matchCount m' t \<le> matchCount m t"
    and before: "\<forall>m' \<in> set (takeWhile (\<lambda>x. x \<noteq> m) moodOrder). matchCount m' t < matchCount m t"
  shows "analyzeMood t = (m, moodScoreMap m)"
proof -
  obtain i where i: "i < 5" "moodOrder ! i = m" "takeWhile (\<lambda>x. x \<noteq> m) moodOrder = take i moodOrder"
  proof (cases m)
    case Happy then show ?thesis using that [of 0] by (simp add: moodOrder_eq)
  next
    case Calm then show ?thesis using that [of 1] by (simp add: moodOrder_eq)
  next
    case Motivated then show ?thesis using that [of 2] by (simp add: moodOrder_eq)
  next
    case Stressed then show ?thesis using that [of 3] by (simp add: moodOrder_eq)
  next
    case Lonely then show ?thesis using that [of 4] by (simp add: moodOrder_eq)
  qed
  have b: "\<forall>j < i. matchCount (moodOrder ! j) t < matchCount (moodOrder ! i) t"
  proof (intro allI impI)
    fix j assume j: "j < i"
    then have "moodOrder ! j \<in> set (take i moodOrder)"
      using i(1) by (auto simp: in_set_conv_nth moodOrder_eq intro!: exI [of _ j])
    with before i show "matchCount (moodOrder ! j) t < matchCount (moodOrder ! i) t" by simp
  qed
  have a: "\<forall>j < 5. matchCount (moodOrder ! j) t \<le> matchCount (moodOrder ! i) t"
    using all i by simp
  from analyzeMood_first_max [OF i(1) _ b a] pos i show ?thesis by simp
qed





text \<open>
  Claim C2. When the only keywords that match a text are keywords of one mood \<open>m\<close> (at
  least one of them matches, and no keyword of another mood does), \<open>analyzeMood\<close> returns
  \<open>m\<close> with its score, where the scores are Calm 1, Motivated 2, Happy 3, Stressed 4 and
  Lonely 5.
\<close>

theorem analyzeMood_single_mood:
  "(0 < matchCount m t \<and> (\<forall>m'. m' \<noteq> m \<longrightarrow> matchCount m' t = 0)
      \<longrightarrow> analyzeMood t = (m, moodScoreMap m)) \<and>
   moodScoreMap Calm = 1 \<and> moodScoreMap Motivated = 2 \<and> moodScoreMap Happy = 3 \<and>
   moodScoreMap Stressed = 4 \<and> moodScoreMap Lonely = 5"
proof -
  have "analyzeMood t = (m, moodScoreMap m)"
    if pos: "0 < matchCount m t" and others: "\<forall>m'. m' \<noteq> m \<longrightarrow> matchCount m' t = 0"
  proof (rule analyzeMood_first_max_mood [OF pos])
    show "\<forall>m'. matchCount m' t \<le> matchCount m t"
    proof
      fix m' show "matchCount m' t \<le> matchCount m t"
        using others by (cases "m' = m") simp_all
    qed
    show "\<forall>m' \<in> set (takeWhile (\<lambda>x. x \<noteq> m) moodOrder). matchCount m' t < matchCount m t"
    proof
      fix m' assume "m' \<in> set (takeWhile (\<lambda>x. x \<noteq> m) moodOrder)"
      then have "m' \<noteq> m" by (auto dest: set_takeWhileD)
      with others pos show "matchCount m' t < matchCount m t" by simp
    qed
  qed
  then show ?thesis by simp
qed

lemma matchCount_example_stressed:
  "matchCount Happy ''My EXAM deadline makes me nervous'' = 0"
  "matchCount Calm ''My EXAM deadline makes me nervous'' = 0"
  "matchCount Motivated ''My EXAM deadline makes me nervous'' = 0"
  "matchCount Stressed ''My EXAM deadline makes me nervous'' = 3"
  "matchCount Lonely ''My EXAM deadline makes me nervous'' = 0"
  by code_simp+

text \<open>Witness for C2: a text that matches three keywords of Stressed and no other
  keyword.\<close>

theorem analyzeMood_single_mood_witness:
  "analyzeMood ''My EXAM deadline makes me nervous'' = (Stressed, 4)"
proof -
  have pos: "0 < matchCount Stressed ''My EXAM deadline makes me nervous''"
    by (simp add: matchCount_example_stressed)
  have others: "\<forall>m'. m' \<noteq> Stressed \<longrightarrow> matchCount m' ''My EXAM deadline makes me nervous'' = 0"
  proof (intro allI impI)
    fix m' :: mood assume "m' \<noteq> Stressed"
    then show "matchCount m' ''My EXAM deadline makes me nervous'' = 0"
      by (cases m') (simp_all add: matchCount_example_stressed)
  qed
  from analyzeMood_single_mood [of Stressed "''My EXAM deadline makes me nervous''"] pos others
  have "analyzeMood ''My EXAM deadline makes me nervous'' = (Stressed, moodScoreMap Stressed)"
    by blast
  then show ?thesis by simp
qed

lemma keywordsOf_lowercase_distinct:
  "distinct (keywordsOf Happy) \<and> map toLowerCase (keywordsOf Happy) = keywordsOf Happy"
  "distinct (keywordsOf Calm) \<and> map toLowerCase (keywordsOf Calm) = keywordsOf Calm"
  "distinct (keywordsOf Motivated) \<and> map toLowerCase (keywordsOf Motivated) = keywordsOf Motivated"
  "distinct (keywordsOf Stressed) \<and> map toLowerCase (keywordsOf Stressed) = keywordsOf Stressed"
  "distinct (keywordsOf Lonely) \<and> map toLowerCase (keywordsOf Lonely) = keywordsOf Lonely"
  by code_simp+

text \<open>Counterexample for C3: the keyword list of Happy does not have 10 entries.\<close>

theorem keywordsOf_Happy_not_10: "length (keywordsOf Happy) \<noteq> 10"
  by (simp add: keywordsOf_def moodKeywords_def)

text \<open>
  Claim C3, amended. The keyword list of Happy has 11 entries and the lists of Calm,
  Motivated, Stressed and Lonely have 10 entries each; every list is free of duplicates and
  every keyword is in lower case.
\<close>

theorem keywordsOf_sizes:
  "length (keywordsOf Happy) = 11 \<and> length (keywordsOf Calm) = 10 \<and>
   length (keywordsOf Motivated) = 10 \<and> length (keywordsOf Stressed) = 10 \<and>
   length (keywordsOf Lonely) = 10 \<and>
   (\<forall>m. distinct (keywordsOf m) \<and> map toLowerCase (keywordsOf m) = keywordsOf m)"
proof -
  have "distinct (keywordsOf m) \<and> map toLowerCase (keywordsOf m) = keywordsOf m" for m
    by (cases m) (simp_all add: keywordsOf_lowercase_distinct)
  then show ?thesis by (simp add: keywordsOf_def moodKeywords_def)
qed

text \<open>
  Claim C10. The classifier is case-insensitive: two texts with the same lowercasing get
  the same result.
\<close>

theorem analyzeMood_case_insensitive:
  "toLowerCase t = toLowerCase t' \<Longrightarrow> analyzeMood t = analyzeMood t'"
  by (simp add: analyzeMood_def)

text \<open>Witness for C10: a text and its lower-case form.\<close>

theorem analyzeMood_case_insensitive_witness:
  "toLowerCase ''I am SO Happy'' = toLowerCase ''i am so happy'' \<and>
   analyzeMood ''I am SO Happy'' = analyzeMood ''i am so happy''"
proof -
  have h: "toLowerCase ''I am SO Happy'' = toLowerCase ''i am so happy''" by code_simp
  from analyzeMood_case_insensitive [OF h] h show ?thesis by simp
qed

section \<open>Rounding to a double\<close>

text \<open>\<open>floorLog2\<close> gives the exponent of a positive rational.\<close>

lemma bitlen_powi_bounds:
  assumes "0 < p"
  shows "(2::rat) powi (bitlen p - 1) \<le> of_int p" "of_int p < (2::rat) powi bitlen p"
proof -
  have b1: "1 \<le> bitlen p"
    using assms by (auto simp: bitlen_alt_def)
  from bitlen_bounds [OF assms]
  have "(2::int) ^ nat (bitlen p - 1) \<le> p" and "p < 2 ^ nat (bitlen p)"
    by simp_all
  then have "(of_int (2 ^ nat (bitlen p - 1)) :: rat) \<le> of_int p"
    and "(of_int p :: rat) < of_int (2 ^ nat (bitlen p))"
    by (simp_all only: of_int_le_iff of_int_less_iff)
  then show "(2::rat) powi (bitlen p - 1) \<le> of_int p" "of_int p < (2::rat) powi bitlen p"
    using b1 by (simp_all add: power_int_def)
qed

lemma floorLog2_bounds:
  assumes "0 < a"
  shows "2 powi floorLog2 a \<le> a \<and> a < 2 powi (floorLog2 a + 1)"
proof -
  obtain p q where pq: "quotient_of a = (p, q)" by (cases "quotient_of a")
  then have q: "0 < q" and a: "a = of_int p / of_int q"
    by (auto dest: quotient_of_denom_pos quotient_of_div)
  from assms a q have p: "0 < p" by (simp add: zero_less_divide_iff)
  define d where "d = bitlen p - bitlen q"
  have qr: "(0::rat) < of_int q" using q by simp
  have "a * of_int q = of_int p" using a q by simp
  have up: "a < 2 powi (d + 1)"
  proof -
    have "of_int p < (2::rat) powi bitlen p" by (rule bitlen_powi_bounds [OF p])
    also have "\<dots> = 2 powi (d + 1) * 2 powi (bitlen q - 1)"
      by (simp add: d_def power_int_add [symmetric])
    also have "\<dots> \<le> 2 powi (d + 1) * of_int q"
      by (intro mult_left_mono bitlen_powi_bounds [OF q]) simp
    finally show ?thesis using qr by (simp add: a pos_divide_less_eq)
  qed
  have lo: "2 powi (d - 1) < a"
  proof -
    have "2 powi (d - 1) * of_int q < (2::rat) powi (d - 1) * 2 powi bitlen q"
      by (intro mult_strict_left_mono bitlen_powi_bounds [OF q]) simp
    also have "\<dots> = 2 powi (bitlen p - 1)"
      by (simp add: d_def power_int_add [symmetric])
    also have "\<dots> \<le> of_int p" by (rule bitlen_powi_bounds [OF p])
    finally show ?thesis using qr by (simp add: a pos_less_divide_eq)
  qed
  have fl: "floorLog2 a = (if 2 powi d \<le> a then d else d - 1)"
    by (simp add: floorLog2_def pq d_def Let_def)
  show ?thesis
  proof (cases "2 powi d \<le> a")
    case True
    with up fl show ?thesis by simp
  next
    case False
    with lo fl show ?thesis by simp
  qed
qed

text \<open>\<open>roundHalfEven\<close> gives a nearest integer.\<close>

lemma roundHalfEven_near: "\<bar>of_int (roundHalfEven x) - x\<bar> \<le> 1 / 2"
proof -
  have "of_int \<lfloor>x\<rfloor> \<le> x" "x < of_int \<lfloor>x\<rfloor> + 1" by linarith+
  then show ?thesis
    by (auto simp: roundHalfEven_def Let_def abs_le_iff)
qed

lemma roundHalfEven_cases:
  "of_int (roundHalfEven x) = (of_int \<lfloor>x\<rfloor> :: rat) \<and> x - of_int \<lfloor>x\<rfloor> \<le> 1 / 2 \<or>
   of_int (roundHalfEven x) = (of_int \<lfloor>x\<rfloor> :: rat) + 1 \<and> 1 / 2 \<le> x - of_int \<lfloor>x\<rfloor>"
  by (auto simp: roundHalfEven_def Let_def)

lemma roundHalfEven_nearest: "\<bar>of_int (roundHalfEven x) - x\<bar> \<le> \<bar>of_int k - x\<bar>"
proof -
  have fx: "of_int \<lfloor>x\<rfloor> \<le> x" "x < of_int \<lfloor>x\<rfloor> + 1" by linarith+
  have k: "(of_int k :: rat) \<le> of_int \<lfloor>x\<rfloor> \<or> (of_int \<lfloor>x\<rfloor> :: rat) + 1 \<le> of_int k"
  proof (cases "k \<le> \<lfloor>x\<rfloor>")
    case True
    then show ?thesis by simp
  next
    case False
    then have "\<lfloor>x\<rfloor> + 1 \<le> k" by simp
    then have "(of_int (\<lfloor>x\<rfloor> + 1) :: rat) \<le> of_int k" by (simp only: of_int_le_iff)
    then show ?thesis by simp
  qed
  from roundHalfEven_cases [of x] fx k show ?thesis by linarith
qed

lemma roundHalfEven_mono: "x \<le> of_int n \<Longrightarrow> roundHalfEven x \<le> n"
proof -
  assume "x \<le> of_int n"
  then have "\<lfloor>x\<rfloor> \<le> n" by (simp add: floor_le_iff)
  show "roundHalfEven x \<le> n"
  proof (rule ccontr)
    assume "\<not> roundHalfEven x \<le> n"
    with \<open>\<lfloor>x\<rfloor> \<le> n\<close> have eq: "\<lfloor>x\<rfloor> = n" "roundHalfEven x = n + 1"
      by (auto simp: roundHalfEven_def Let_def split: if_splits)
    from of_int_floor_le [of x] eq(1) have "of_int n \<le> x" by simp
    with \<open>x \<le> of_int n\<close> have "x = of_int n" by (rule order_antisym)
    then show False using eq by (simp add: roundHalfEven_def)
  qed
qed

lemma roundHalfEven_nonneg: "0 \<le> x \<Longrightarrow> 0 \<le> roundHalfEven x"
  by (auto simp: roundHalfEven_def Let_def)

text \<open>The result of \<open>roundDouble\<close> for a positive argument: a multiple \<open>m * 2^q\<close> with
  \<open>m\<close> at most \<open>2^53\<close>, at a distance of at most half of \<open>2^q\<close>.\<close>

lemma roundDouble_pos:
  assumes "0 < x"
  defines "q \<equiv> max (floorLog2 x - 52) (- 1074)"
  defines "m \<equiv> roundHalfEven (x / 2 powi q)"
  shows "roundDouble x = (if (2::rat) powi 1024 \<le> of_int m * 2 powi q then PosInf
                          else Num (of_int m * 2 powi q))"
    and "0 \<le> m" and "m \<le> 2 ^ 53"
    and "\<bar>of_int m * 2 powi q - x\<bar> \<le> 2 powi q / 2"
proof -
  have pq: "(0::rat) < 2 powi q" by simp
  show "roundDouble x = (if (2::rat) powi 1024 \<le> of_int m * 2 powi q then PosInf
                          else Num (of_int m * 2 powi q))"
    using assms(1) by (simp add: roundDouble_def Let_def q_def m_def)
  show "0 \<le> m"
    unfolding m_def using assms(1) by (intro roundHalfEven_nonneg) simp
  have "x < 2 powi (floorLog2 x + 1)"
    using floorLog2_bounds [OF assms(1)] by simp
  also have "\<dots> \<le> 2 powi (q + 53)"
    by (intro power_int_increasing) (simp_all add: q_def)
  also have "\<dots> = 2 ^ 53 * 2 powi q"
    by (simp add: power_int_add)
  finally have "x / 2 powi q \<le> of_int (2 ^ 53)"
    using pq by (simp add: pos_divide_le_eq)
  then show "m \<le> 2 ^ 53" unfolding m_def by (rule roundHalfEven_mono)
  have "\<bar>of_int m - x / 2 powi q\<bar> * 2 powi q \<le> 1 / 2 * 2 powi q"
    unfolding m_def by (intro mult_right_mono roundHalfEven_near) simp
  moreover have "\<bar>of_int m - x / 2 powi q\<bar> * 2 powi q = \<bar>of_int m * 2 powi q - x\<bar>"
  proof -
    have "\<bar>of_int m - x / 2 powi q\<bar> * 2 powi q = \<bar>(of_int m - x / 2 powi q) * 2 powi q\<bar>"
      by (simp add: abs_mult)
    also have "(of_int m - x / 2 powi q) * 2 powi q = of_int m * 2 powi q - x"
      using pq by (simp add: left_diff_distrib)
    finally show ?thesis .
  qed
  ultimately show "\<bar>of_int m * 2 powi q - x\<bar> \<le> 2 powi q / 2" by simp
qed

text \<open>No other multiple of \<open>2^q\<close> is nearer.\<close>

lemma roundDouble_nearest:
  assumes "0 < x"
  defines "q \<equiv> max (floorLog2 x - 52) (- 1074)"
  defines "m \<equiv> roundHalfEven (x / 2 powi q)"
  shows "\<bar>of_int m * 2 powi q - x\<bar> \<le> \<bar>of_int k * 2 powi q - x\<bar>"
proof -
  have pq: "(0::rat) < 2 powi q" by simp
  have scale: "\<bar>of_int j * 2 powi q - x\<bar> = \<bar>of_int j - x / 2 powi q\<bar> * 2 powi q" for j
  proof -
    have "of_int j * 2 powi q - x = (of_int j - x / 2 powi q) * 2 powi q"
      using pq by (simp add: left_diff_distrib)
    then show ?thesis by (simp add: abs_mult)
  qed
  have "\<bar>of_int m - x / 2 powi q\<bar> * 2 powi q \<le> \<bar>of_int k - x / 2 powi q\<bar> * 2 powi q"
    unfolding m_def by (intro mult_right_mono roundHalfEven_nearest) simp
  then show ?thesis by (simp only: scale)
qed

lemma powi2_lessD: "(2::rat) powi a < 2 powi b \<Longrightarrow> a < b"
proof (rule ccontr)
  assume lt: "(2::rat) powi a < 2 powi b" and "\<not> a < b"
  then have "b \<le> a" by simp
  then have "(2::rat) powi b \<le> 2 powi a" by (intro power_int_increasing) simp_all
  with lt show False by simp
qed

text \<open>In the range of the normal numbers the result is finite and the relative error is
  at most \<open>2^-53\<close>.\<close>

lemma roundDouble_normal:
  assumes lo: "2 powi (- 1022) \<le> x" and hi: "x < 2 powi 1023"
  shows "\<exists>y. roundDouble x = Num y \<and> \<bar>y - x\<bar> \<le> x * 2 powi (- 53)"
proof -
  have x: "0 < x"
    using lo by (rule less_le_trans [rotated]) simp
  define e where "e = floorLog2 x"
  define q where "q = max (e - 52) (- 1074)"
  define m where "m = roundHalfEven (x / 2 powi q)"
  note rd = roundDouble_pos [OF x, folded e_def, folded q_def, folded m_def]
  from floorLog2_bounds [OF x] have e: "2 powi e \<le> x" "x < 2 powi (e + 1)"
    by (simp_all add: e_def)
  have "(2::rat) powi (- 1022) < 2 powi (e + 1)"
    using lo e(2) by (rule le_less_trans)
  then have "- 1022 < e + 1" by (rule powi2_lessD)
  then have e_lo: "- 1022 \<le> e" by simp
  have "(2::rat) powi e < 2 powi 1023"
    using e(1) hi by (rule le_less_trans)
  then have "e < 1023" by (rule powi2_lessD)
  then have e_hi: "e \<le> 1022" by simp
  have q: "q = e - 52" using e_lo by (simp add: q_def)
  have "of_int m * 2 powi q \<le> (2::rat) ^ 53 * 2 powi q"
    using rd(3) by (intro mult_right_mono) (simp_all flip: of_int_le_iff)
  also have "\<dots> = 2 powi (q + 53)" by (simp add: power_int_add)
  also have "\<dots> < 2 powi 1024"
    using e_hi by (intro power_int_strict_increasing) (simp_all add: q)
  finally have fin: "roundDouble x = Num (of_int m * 2 powi q)"
    using rd(1) by simp
  have "2 powi q / 2 = (2::rat) powi e * 2 powi (- 53)"
    by (simp add: q power_int_diff)
  also have "\<dots> \<le> x * 2 powi (- 53)"
    using e(1) by (intro mult_right_mono) simp_all
  finally have "\<bar>of_int m * 2 powi q - x\<bar> \<le> x * 2 powi (- 53)"
    using rd(4) by simp
  with fin show ?thesis by blast
qed

lemma roundHalfEven_of_int: "roundHalfEven (of_int k) = k"
  by (simp add: roundHalfEven_def)

lemma powi2_less_1024: "k \<le> 1023 \<Longrightarrow> (2::rat) powi k < 2 powi 1024"
  by (intro power_int_strict_increasing) simp_all

text \<open>An integer below \<open>2^53\<close> is a double.\<close>

lemma roundDouble_int:
  assumes "0 \<le> n" and "n < 2 ^ 53"
  shows "roundDouble (of_int n) = Num (of_int n)"
proof (cases "n = 0")
  case True
  then show ?thesis by (simp add: roundDouble_def)
next
  case False
  with assms have n: "0 < n" by simp
  then have x: "(0::rat) < of_int n" by simp
  define e where "e = floorLog2 (of_int n)"
  define q where "q = max (e - 52) (- 1074)"
  define m where "m = roundHalfEven (of_int n / 2 powi q)"
  note rd = roundDouble_pos [OF x, folded e_def, folded q_def, folded m_def]
  from floorLog2_bounds [OF x] have e: "2 powi e \<le> (of_int n :: rat)" "(of_int n :: rat) < 2 powi (e + 1)"
    by (simp_all add: e_def)
  have "(of_int n :: rat) < of_int (2 ^ 53)"
    using assms(2) by (simp only: of_int_less_iff)
  then have "(of_int n :: rat) < 2 powi 53" by simp
  with e(1) have "(2::rat) powi e < 2 powi 53" by (rule le_less_trans)
  then have "e < 53" by (rule powi2_lessD)
  then have e_hi: "e \<le> 52" by simp
  have "(1::rat) \<le> of_int n" using n by simp
  then have "(2::rat) powi 0 < 2 powi (e + 1)" using e(2) by simp
  then have "0 < e + 1" by (rule powi2_lessD)
  then have e_lo: "0 \<le> e" by simp
  have q: "q = e - 52" using e_lo by (simp add: q_def)
  define k where "k = nat (52 - e)"
  have "q = - int k" using e_hi by (simp add: q k_def)
  then have "(2::rat) powi q = inverse (2 powi int k)" by (simp only: power_int_minus)
  then have pk: "(2::rat) powi q = 1 / 2 ^ k"
    by (simp only: power_int_of_nat inverse_eq_divide)
  have "of_int n / (2::rat) powi q = of_int (n * 2 ^ k)"
    by (simp add: pk)
  then have m: "m = n * 2 ^ k"
    by (simp only: m_def roundHalfEven_of_int)
  have y: "of_int m * (2::rat) powi q = of_int n"
    by (simp add: m pk)
  have "(of_int n :: rat) < 2 powi 1024"
    using \<open>(of_int n :: rat) < 2 powi 53\<close> powi2_less_1024 [of 53] by simp
  with rd(1) y show ?thesis by simp
qed

lemma jsNumber_int: "0 \<le> n \<Longrightarrow> n < 2 ^ 53 \<Longrightarrow> jsNumber n = Num (of_int n)"
  by (simp add: jsNumber_def roundDouble_int)

text \<open>The quotient of two positive integers below \<open>2^53\<close>, times 100, in doubles: the
  result is finite and differs from the exact value by a relative error of at most
  \<open>2^-51\<close>.\<close>

lemma percent_accuracy:
  assumes a: "0 < a" "a < 2 ^ 53" and b: "0 < b" "b < 2 ^ 53"
  shows "\<exists>x. times100 (jsDivide (jsNumber a) (jsNumber b)) = Num x \<and>
             \<bar>x - of_int a / of_int b * 100\<bar> \<le> of_int a / of_int b * 100 / 2 ^ 51"
proof -
  define r :: rat where "r = of_int a / of_int b"
  define eps :: rat where "eps = 2 powi (- 53)"
  have eps: "0 < eps" "eps \<le> 1 / 2" "4 * eps = 1 / 2 ^ 51"
    by (simp_all add: eps_def power_int_minus)
  have ar: "(1::rat) \<le> of_int a" "(of_int a :: rat) < 2 ^ 53"
    using a by (simp_all flip: of_int_less_iff)
  have br: "(1::rat) \<le> of_int b" "(of_int b :: rat) < 2 ^ 53"
    using b by (simp_all flip: of_int_less_iff)
  have r_lo: "eps < r"
  proof -
    have "eps * of_int b < 1"
      using br(2) by (simp add: eps_def power_int_minus field_simps)
    also have "\<dots> \<le> of_int a" by (rule ar)
    finally show ?thesis using br(1) by (simp add: r_def pos_less_divide_eq)
  qed
  have r_hi: "r < 2 ^ 53"
  proof -
    have "r \<le> of_int a"
      using ar(1) br(1) by (simp add: r_def pos_divide_le_eq mult_le_cancel_left1)
    with ar(2) show ?thesis by simp
  qed
  have r: "0 < r" using eps(1) r_lo by simp
  have n1: "2 powi (- 1022) \<le> r"
  proof -
    have "(2::rat) powi (- 1022) \<le> 2 powi (- 53)" by (intro power_int_increasing) simp_all
    with r_lo show ?thesis by (simp only: eps_def)
  qed
  have n2: "r < 2 powi 1023"
  proof -
    have "(2::rat) powi 53 \<le> 2 powi 1023" by (intro power_int_increasing) simp_all
    moreover have "r < 2 powi 53" using r_hi by simp
    ultimately show ?thesis by (rule less_le_trans [rotated])
  qed
  from roundDouble_normal [OF n1 n2] obtain y1
    where y1: "roundDouble r = Num y1" "\<bar>y1 - r\<bar> \<le> r * eps"
    by (auto simp only: eps_def)
  have div: "jsDivide (jsNumber a) (jsNumber b) = Num y1"
    using a b y1(1) by (simp add: jsNumber_int r_def)
  have re: "r * eps \<le> r / 2" using eps(2) r by (simp add: field_simps)
  have y1_lo: "r / 2 \<le> y1" and y1_hi: "y1 \<le> r + r * eps"
    using y1(2) re by linarith+
  have m1: "2 powi (- 1022) \<le> y1 * 100"
  proof -
    have "2 powi (- 1022) \<le> r" by (rule n1)
    also have "r \<le> y1 * 100" using y1_lo r by linarith
    finally show ?thesis .
  qed
  have m2: "y1 * 100 < 2 powi 1023"
  proof -
    have "y1 \<le> r + r / 2" using y1_hi re by linarith
    then have "y1 * 100 \<le> (r + r / 2) * 100" by simp
    also have "\<dots> < 2 ^ 53 * 256" using r_hi by simp
    also have "\<dots> = 2 powi 61" by simp
    also have "\<dots> \<le> 2 powi 1023" by (intro power_int_increasing) simp_all
    finally show ?thesis .
  qed
  from roundDouble_normal [OF m1 m2] obtain y2
    where y2: "roundDouble (y1 * 100) = Num y2" "\<bar>y2 - y1 * 100\<bar> \<le> y1 * 100 * eps"
    by (auto simp only: eps_def)
  have res: "times100 (jsDivide (jsNumber a) (jsNumber b)) = Num y2"
    by (simp add: div y2(1))
  have "y1 * eps \<le> (r + r * eps) * eps"
    using y1_hi eps(1) by (intro mult_right_mono) simp_all
  also have "\<dots> = r * eps + r * eps * eps" by (simp add: algebra_simps)
  also have "r * eps * eps \<le> r * eps * 1"
    using r eps by (intro mult_left_mono) simp_all
  finally have ye: "y1 * eps \<le> 2 * (r * eps)" by (simp add: mult.commute)
  have "\<bar>y2 - r * 100\<bar> \<le> \<bar>y2 - y1 * 100\<bar> + 100 * \<bar>y1 - r\<bar>"
    by (simp add: abs_if split: if_splits)
  also have "\<dots> \<le> y1 * 100 * eps + 100 * (r * eps)"
    using y2(2) y1(2) by (intro add_mono) simp_all
  also have "\<dots> \<le> 300 * (r * eps)" using ye by (simp add: algebra_simps)
  also have "\<dots> \<le> r * 100 * (4 * eps)" using r eps(1) by (simp add: field_simps)
  finally have "\<bar>y2 - r * 100\<bar> \<le> r * 100 / 2 ^ 51"
    by (simp only: eps(3) times_divide_eq_right mult_1_right)
  with res show ?thesis by (auto simp only: r_def)
qed

text \<open>Evaluating \<open>roundDouble\<close> on a number whose exponent is known.\<close>

lemma floorLog2_unique:
  assumes "2 powi e \<le> x" "x < 2 powi (e + 1)"
  shows "floorLog2 x = e"
proof -
  have x: "0 < x" using assms(1) by (rule less_le_trans [rotated]) simp
  from floorLog2_bounds [OF x]
  have f: "2 powi floorLog2 x \<le> x" "x < 2 powi (floorLog2 x + 1)" by simp_all
  have "(2::rat) powi e < 2 powi (floorLog2 x + 1)" using assms(1) f(2) by (rule le_less_trans)
  then have "e < floorLog2 x + 1" by (rule powi2_lessD)
  moreover have "(2::rat) powi floorLog2 x < 2 powi (e + 1)" using f(1) assms(2) by (rule le_less_trans)
  then have "floorLog2 x < e + 1" by (rule powi2_lessD)
  ultimately show ?thesis by simp
qed

lemma roundDouble_eqI:
  assumes "2 powi e \<le> x" "x < 2 powi (e + 1)" "- 1022 \<le> e" "e \<le> 1022"
    and "roundHalfEven (x / 2 powi (e - 52)) = m"
  shows "roundDouble x = Num (of_int m * 2 powi (e - 52))"
proof -
  have x: "0 < x" using assms(1) by (rule less_le_trans [rotated]) simp
  have fl: "floorLog2 x = e" using assms(1,2) by (rule floorLog2_unique)
  have q: "max (floorLog2 x - 52) (- 1074) = e - 52" using assms(3) by (simp add: fl)
  note rd = roundDouble_pos [OF x, unfolded q assms(5)]
  have "of_int m * 2 powi (e - 52) \<le> (2::rat) ^ 53 * 2 powi (e - 52)"
    using rd(3) by (intro mult_right_mono) (simp_all flip: of_int_le_iff)
  also have "\<dots> = 2 powi 53 * 2 powi (e - 52)" by simp
  also have "\<dots> = 2 powi (53 + (e - 52))" by (subst power_int_add) simp_all
  also have "\<dots> < 2 powi 1024"
    using assms(4) by (intro power_int_strict_increasing) simp_all
  finally show ?thesis using rd(1) by simp
qed

lemma roundDouble_eval:
  assumes "2 powi e \<le> x" "x < 2 powi (e + 1)" "- 1022 \<le> e" "e \<le> 1022"
  shows "roundDouble x = Num (of_int (roundHalfEven (x / 2 powi (e - 52))) * 2 powi (e - 52))"
  using assms by (rule roundDouble_eqI) simp

text \<open>The roundings of the quotients and products of four exams.\<close>

lemma roundDouble_examples:
  "roundDouble (80 / 100) = Num (3602879701896397 / 4503599627370496)"
  "roundDouble (3602879701896397 / 4503599627370496 * 100) = Num 80"
  "roundDouble (95 / 80) = Num (19 / 16)"
  "roundDouble (19 / 16 * 100) = Num (475 / 4)"
  "roundDouble (23 / 40) = Num (2589569785738035 / 4503599627370496)"
  "roundDouble (2589569785738035 / 4503599627370496 * 100) = Num (8092405580431359 / 140737488355328)"
  "roundDouble (29 / 200) = Num (5224175567749775 / 36028797018963968)"
  "roundDouble (5224175567749775 / 36028797018963968 * 100) = Num (8162774324609023 / 562949953421312)"
proof -
  have m: "roundHalfEven ((80 / 100) / 2 powi (- 1 - 52)) = 7205759403792794"
    "roundHalfEven ((3602879701896397 / 4503599627370496 * 100) / 2 powi (6 - 52)) = 5629499534213120"
    "roundHalfEven ((95 / 80) / 2 powi (0 - 52)) = 5348024557502464"
    "roundHalfEven ((19 / 16 * 100) / 2 powi (6 - 52)) = 8356288371097600"
    "roundHalfEven ((23 / 40) / 2 powi (- 1 - 52)) = 5179139571476070"
    "roundHalfEven ((2589569785738035 / 4503599627370496 * 100) / 2 powi (5 - 52)) = 8092405580431359"
    "roundHalfEven ((29 / 200) / 2 powi (- 3 - 52)) = 5224175567749775"
    "roundHalfEven ((5224175567749775 / 36028797018963968 * 100) / 2 powi (3 - 52)) = 8162774324609023"
    by code_simp+
  show "roundDouble (80 / 100) = Num (3602879701896397 / 4503599627370496)"
    using roundDouble_eval [of "- 1" "80 / 100"] m by (simp add: power_int_minus)
  show "roundDouble (3602879701896397 / 4503599627370496 * 100) = Num 80"
    using roundDouble_eval [of 6 "3602879701896397 / 4503599627370496 * 100"] m by (simp add: power_int_minus)
  show "roundDouble (95 / 80) = Num (19 / 16)"
    using roundDouble_eval [of 0 "95 / 80"] m by (simp add: power_int_minus)
  show "roundDouble (19 / 16 * 100) = Num (475 / 4)"
    using roundDouble_eval [of 6 "19 / 16 * 100"] m by (simp add: power_int_minus)
  show "roundDouble (23 / 40) = Num (2589569785738035 / 4503599627370496)"
    using roundDouble_eval [of "- 1" "23 / 40"] m by (simp add: power_int_minus)
  show "roundDouble (2589569785738035 / 4503599627370496 * 100) =
      Num (8092405580431359 / 140737488355328)"
    using roundDouble_eval [of 5 "2589569785738035 / 4503599627370496 * 100"] m by (simp add: power_int_minus)
  show "roundDouble (29 / 200) = Num (5224175567749775 / 36028797018963968)"
    using roundDouble_eval [of "- 3" "29 / 200"] m by (simp add: power_int_minus)
  show "roundDouble (5224175567749775 / 36028797018963968 * 100) =
      Num (8162774324609023 / 562949953421312)"
    using roundDouble_eval [of 3 "5224175567749775 / 36028797018963968 * 100"] m by (simp add: power_int_minus)
qed

section \<open>Exam progress\<close>

lemma progressValue_cases:
  "progressValue e =
     (case obtained_marks e of
        None \<Rightarrow> times100 (jsDivide (jsNumber (target_marks e)) (jsNumber (max_marks e)))
      | Some ob \<Rightarrow>
          mathMin (times100 (jsDivide (jsNumber ob) (jsNumber (target_marks e)))) (Num 100))"
  by (simp add: progressValue_def getProgressPercentage_def split: option.splits)

lemma progressLabel_round: "progressLabel e = mathRound (progressValue e)"
  by (simp add: progressLabel_def progressValue_def)

lemma progressValue_pending_accuracy:
  assumes "obtained_marks e = None"
    and "0 < target_marks e" "target_marks e < 2 ^ 53"
    and "0 < max_marks e" "max_marks e < 2 ^ 53"
  shows "\<exists>x. progressValue e = Num x \<and>
             \<bar>x - of_int (target_marks e) / of_int (max_marks e) * 100\<bar>
               \<le> of_int (target_marks e) / of_int (max_marks e) * 100 / 2 ^ 51"
  using percent_accuracy [OF assms(2-5)] assms(1) by (simp add: progressValue_cases)

lemma progressValue_scored_accuracy:
  assumes "obtained_marks e = Some ob"
    and "0 \<le> ob" "ob < 2 ^ 53"
    and "0 < target_marks e" "target_marks e < 2 ^ 53"
  shows "\<exists>x. progressValue e = Num x \<and>
             \<bar>x - min (of_int ob / of_int (target_marks e) * 100) 100\<bar>
               \<le> of_int ob / of_int (target_marks e) * 100 / 2 ^ 51"
proof (cases "ob = 0")
  case True
  have "jsNumber 0 = Num 0" by (simp add: jsNumber_def roundDouble_def)
  moreover have "jsNumber (target_marks e) = Num (of_int (target_marks e))"
    using assms(4,5) by (simp add: jsNumber_int)
  ultimately have "progressValue e = Num 0"
    using assms(1,4) True by (simp add: progressValue_cases roundDouble_def)
  with True show ?thesis by simp
next
  case False
  with assms(2) have "0 < ob" by simp
  from percent_accuracy [OF this assms(3-5)] obtain y
    where y: "times100 (jsDivide (jsNumber ob) (jsNumber (target_marks e))) = Num y"
      "\<bar>y - of_int ob / of_int (target_marks e) * 100\<bar>
         \<le> of_int ob / of_int (target_marks e) * 100 / 2 ^ 51"
    by blast
  have "progressValue e = Num (min y 100)"
    using assms(1) y(1) by (simp add: progressValue_cases)
  moreover have "\<bar>min y 100 - min (of_int ob / of_int (target_marks e) * 100) 100\<bar>
      \<le> \<bar>y - of_int ob / of_int (target_marks e) * 100\<bar>"
    by (simp add: min_def abs_if)
  ultimately show ?thesis using y(2) by (intro exI [of _ "min y 100"]) simp
qed

text \<open>The two exams of the specification, and two exams whose percentage is not a
  double: the card prints 57 for 23 of 40 and 14 for 29 of 200.\<close>

lemma percent_examples:
  "times100 (jsDivide (jsNumber 80) (jsNumber 100)) = Num 80"
  "times100 (jsDivide (jsNumber 95) (jsNumber 80)) = Num (475 / 4)"
  using roundDouble_examples(1-4) by (simp_all add: jsNumber_int)

lemma percent_inexact_examples:
  "times100 (jsDivide (jsNumber 23) (jsNumber 40)) = Num (8092405580431359 / 140737488355328)"
  "times100 (jsDivide (jsNumber 29) (jsNumber 200)) = Num (8162774324609023 / 562949953421312)"
  using roundDouble_examples(5-8) by (simp_all add: jsNumber_int)

lemma percent_rounded_examples:
  "mathRound (times100 (jsDivide (jsNumber 23) (jsNumber 40))) = Num 57"
  "mathRound (times100 (jsDivide (jsNumber 29) (jsNumber 200))) = Num 14"
proof -
  have "round (8092405580431359 / 140737488355328 :: rat) = 57"
    "round (8162774324609023 / 562949953421312 :: rat) = 14"
    by code_simp+
  then show "mathRound (times100 (jsDivide (jsNumber 23) (jsNumber 40))) = Num 57"
    "mathRound (times100 (jsDivide (jsNumber 29) (jsNumber 200))) = Num 14"
    by (simp_all add: percent_inexact_examples)
qed

text \<open>
  Claim C4. For every exam, the progress that the card shows is
  \<open>target_marks / max_marks * 100\<close> when \<open>obtained_marks\<close> is null and
  \<open>min(obtained_marks / target_marks * 100, 100)\<close> when it is present, computed on
  doubles as the card computes it, and the printed label is the rounded value. For marks
  that the table \<open>exams\<close> can hold (positive target and maximum, obtained marks not
  negative, all below \<open>2^53\<close>) the value is finite and within a relative error of \<open>2^-51\<close>
  of the exact quotient. With target 80 and maximum 100, an exam with no obtained marks
  shows 80; with target 80 and obtained marks 95 it shows 100. A percentage that is not a
  double is shown as the card computes it: with target 23 and maximum 40 the value is the
  double just below 57.5 and the label is 57.
\<close>

theorem progress_percentage:
  "progressValue e =
     (case obtained_marks e of
        None \<Rightarrow> times100 (jsDivide (jsNumber (target_marks e)) (jsNumber (max_marks e)))
      | Some ob' \<Rightarrow>
          mathMin (times100 (jsDivide (jsNumber ob') (jsNumber (target_marks e)))) (Num 100)) \<and>
   progressLabel e = mathRound (progressValue e) \<and>
   (obtained_marks e = None \<and> 0 < target_marks e \<and> target_marks e < 2 ^ 53 \<and>
    0 < max_marks e \<and> max_marks e < 2 ^ 53 \<longrightarrow>
      (\<exists>x. progressValue e = Num x \<and>
           \<bar>x - of_int (target_marks e) / of_int (max_marks e) * 100\<bar>
             \<le> of_int (target_marks e) / of_int (max_marks e) * 100 / 2 ^ 51)) \<and>
   (obtained_marks e = Some ob \<and> 0 \<le> ob \<and> ob < 2 ^ 53 \<and>
    0 < target_marks e \<and> target_marks e < 2 ^ 53 \<longrightarrow>
      (\<exists>x. progressValue e = Num x \<and>
           \<bar>x - min (of_int ob / of_int (target_marks e) * 100) 100\<bar>
             \<le> of_int ob / of_int (target_marks e) * 100 / 2 ^ 51)) \<and>
   (obtained_marks e = None \<and> target_marks e = 80 \<and> max_marks e = 100 \<longrightarrow>
      progressValue e = Num 80 \<and> progressLabel e = Num 80) \<and>
   (obtained_marks e = Some 95 \<and> target_marks e = 80 \<longrightarrow>
      progressValue e = Num 100 \<and> progressLabel e = Num 100) \<and>
   (obtained_marks e = None \<and> target_marks e = 23 \<and> max_marks e = 40 \<longrightarrow>
      progressValue e = Num (8092405580431359 / 140737488355328) \<and>
      progressLabel e = Num 57)"
proof -
  have "progressValue e = Num 80 \<and> progressLabel e = Num 80"
    if "obtained_marks e = None" "target_marks e = 80" "max_marks e = 100"
    using that by (simp add: progressLabel_round progressValue_cases percent_examples)
  moreover have "progressValue e = Num 100 \<and> progressLabel e = Num 100"
    if "obtained_marks e = Some 95" "target_marks e = 80"
    using that by (simp add: progressLabel_round progressValue_cases percent_examples)
  moreover have "progressValue e = Num (8092405580431359 / 140737488355328) \<and>
      progressLabel e = Num 57"
    if "obtained_marks e = None" "target_marks e = 23" "max_marks e = 40"
    using that percent_rounded_examples(1)
    by (simp add: progressLabel_def progressValue_cases percent_inexact_examples)
  ultimately show ?thesis
    using progressValue_cases [of e] progressLabel_round [of e]
      progressValue_pending_accuracy [of e] progressValue_scored_accuracy [of e ob]
    by blast
qed

text \<open>Witness for C4: with target 80 and maximum 100, an exam with no obtained marks shows
  80, and an exam with 95 obtained marks shows 100; both values are within the error
  bound of the exact percentage. With target 23 and maximum 40 the label is 57.\<close>

theorem progress_percentage_witness:
  "progressValue examPending = Num 80 \<and> progressLabel examPending = Num 80 \<and>
   progressValue (examPending\<lparr>obtained_marks := Some 95\<rparr>) = Num 100 \<and>
   progressLabel (examPending\<lparr>obtained_marks := Some 95\<rparr>) = Num 100 \<and>
   (\<exists>x. progressValue examPending = Num x \<and> \<bar>x - 80\<bar> \<le> 80 / 2 ^ 51) \<and>
   (\<exists>x. progressValue (examPending\<lparr>obtained_marks := Some 95\<rparr>) = Num x \<and>
        \<bar>x - 100\<bar> \<le> (475 / 4) / 2 ^ 51) \<and>
   progressLabel (examPending\<lparr>target_marks := 23, max_marks := 40\<rparr>) = Num 57"
proof -
  let ?done = "examPending\<lparr>obtained_marks := Some 95\<rparr>"
  have p: "obtained_marks examPending = None" "target_marks examPending = 80"
    "max_marks examPending = 100"
    by (simp_all add: examPending_def)
  have q: "obtained_marks ?done = Some 95" "target_marks ?done = 80"
    by (simp_all add: examPending_def)
  note pending = progress_percentage [of examPending 95]
  note scored = progress_percentage [of ?done 95]
  from pending p
  have v1: "progressValue examPending = Num 80 \<and> progressLabel examPending = Num 80"
    by blast
  from scored q
  have v2: "progressValue ?done = Num 100 \<and> progressLabel ?done = Num 100"
    by blast
  have "0 < target_marks examPending \<and> target_marks examPending < 2 ^ 53 \<and>
        0 < max_marks examPending \<and> max_marks examPending < 2 ^ 53"
    by (simp add: p)
  with pending p(1)
  have "\<exists>x. progressValue examPending = Num x \<and>
          \<bar>x - of_int (target_marks examPending) / of_int (max_marks examPending) * 100\<bar>
            \<le> of_int (target_marks examPending) / of_int (max_marks examPending) * 100 / 2 ^ 51"
    by blast
  then have a1: "\<exists>x. progressValue examPending = Num x \<and> \<bar>x - 80\<bar> \<le> 80 / 2 ^ 51"
    by (simp add: p)
  have "(0::int) \<le> 95 \<and> (95::int) < 2 ^ 53 \<and>
        0 < target_marks ?done \<and> target_marks ?done < 2 ^ 53"
    by (simp add: q)
  with scored q(1)
  have "\<exists>x. progressValue ?done = Num x \<and>
          \<bar>x - min (of_int 95 / of_int (target_marks ?done) * 100) 100\<bar>
            \<le> of_int 95 / of_int (target_marks ?done) * 100 / 2 ^ 51"
    by blast
  then have a2: "\<exists>x. progressValue ?done = Num x \<and> \<bar>x - 100\<bar> \<le> (475 / 4) / 2 ^ 51"
    by (simp add: q)
  have "obtained_marks (examPending\<lparr>target_marks := 23, max_marks := 40\<rparr>) = None \<and>
        target_marks (examPending\<lparr>target_marks := 23, max_marks := 40\<rparr>) = 23 \<and>
        max_marks (examPending\<lparr>target_marks := 23, max_marks := 40\<rparr>) = 40"
    by (simp add: examPending_def)
  with progress_percentage [of "examPending\<lparr>target_marks := 23, max_marks := 40\<rparr>" 95]
  have v3: "progressLabel (examPending\<lparr>target_marks := 23, max_marks := 40\<rparr>) = Num 57"
    by blast
  from v1 v2 a1 a2 v3 show ?thesis by blast
qed

text \<open>Claim C9. For every target, \<open>getProgressPercentage\<close> returns 0 when the obtained
  marks are null; the percentage that the card shows for such an exam is the quotient of
  target and maximum that the card computes itself.\<close>

theorem getProgressPercentage_null:
  "getProgressPercentage None target = Num 0 \<and>
   progressValue (e\<lparr>obtained_marks := None\<rparr>) =
     times100 (jsDivide (jsNumber (target_marks e)) (jsNumber (max_marks e)))"
  by (simp add: getProgressPercentage_def progressValue_def)

section \<open>Parsing and notifications\<close>

lemma parseInt_empty: "parseInt [] = None"
  by (simp add: parseInt_def)

lemma showToast_fields:
  "requests (showToast t w) = requests w" "exams (showToast t w) = exams w"
  "journal_entries (showToast t w) = journal_entries w" "profiles (showToast t w) = profiles w"
  "callbacks (showToast t w) = callbacks w" "toasts (showToast t w) = toasts w @ [t]"
  by (simp_all add: showToast_def)

lemma parseInt_examples:
  "parseInt ''90'' = Some 90" "parseInt ''80'' = Some 80" "parseInt ''100'' = Some 100"
  by code_simp+


section \<open>Adding an exam\<close>

text \<open>
  Claim C5. When the parsed target marks are greater than the parsed maximum marks,
  \<open>handleSubmit\<close> only shows an error notification and returns: the form and the loading
  flag are unchanged, no request is issued, and the tables \<open>exams\<close> and \<open>profiles\<close> are
  as before. With a subject and a date filled in, the notification is the one about the
  target marks.
\<close>

theorem handleSubmit_rejects_target_above_max:
  assumes "parseInt (targetMarks (formData s)) = Some t"
    and "parseInt (maxMarks (formData s)) = Some m"
    and "m < t"
  shows "handleSubmit r userId (w, s) =
           (showToast \<lparr>title = ''Error'',
                       description = (if subject (formData s) = [] \<or> date (formData s) = None
                                      then ''Please fill in all fields''
                                      else ''Target marks cannot be higher than maximum marks''),
                       destructive = True\<rparr> w, s) \<and>
         requests (fst (handleSubmit r userId (w, s))) = requests w \<and>
         exams (fst (handleSubmit r userId (w, s))) = exams w \<and>
         profiles (fst (handleSubmit r userId (w, s))) = profiles w"
proof -
  have ne: "targetMarks (formData s) \<noteq> []" "maxMarks (formData s) \<noteq> []"
    using assms parseInt_empty by auto
  have gt: "jsGreater (parseInt (targetMarks (formData s))) (parseInt (maxMarks (formData s)))"
    using assms by (simp add: jsGreater_def)
  have "handleSubmit r userId (w, s) =
           (showToast \<lparr>title = ''Error'',
                       description = (if subject (formData s) = [] \<or> date (formData s) = None
                                      then ''Please fill in all fields''
                                      else ''Target marks cannot be higher than maximum marks''),
                       destructive = True\<rparr> w, s)"
    using ne gt by (simp add: handleSubmit_def Let_def)
  then show ?thesis by (simp add: showToast_fields)
qed

text \<open>Witness for C5: a form with maximum marks 80 and target marks 90.\<close>

theorem handleSubmit_rejects_target_above_max_witness:
  "parseInt (targetMarks formTooHigh) = Some 90 \<and> parseInt (maxMarks formTooHigh) = Some 80 \<and>
   handleSubmit remoteOk ''u1'' (worldExample, \<lparr>formData = formTooHigh, loading = False\<rparr>) =
     (worldExample\<lparr>toasts := [\<lparr>title = ''Error'',
         description = ''Target marks cannot be higher than maximum marks'',
         destructive = True\<rparr>]\<rparr>, \<lparr>formData = formTooHigh, loading = False\<rparr>)"
proof -
  let ?s = "\<lparr>formData = formTooHigh, loading = False\<rparr>"
  have a: "parseInt (targetMarks (formData ?s)) = Some 90"
    by (simp add: formTooHigh_def parseInt_examples)
  have b: "parseInt (maxMarks (formData ?s)) = Some 80"
    by (simp add: formTooHigh_def parseInt_examples)
  have c: "(80::int) < 90" by simp
  from handleSubmit_rejects_target_above_max [OF a b c, of remoteOk "''u1''" worldExample] a b
  show ?thesis by (simp add: formTooHigh_def worldExample_def showToast_def)
qed


section \<open>Wellness points\<close>

lemma handleQuickAction_requests:
  "requests (fst (handleQuickAction r u a (w, s))) =
     requests w @ [SelectPoints u, UpdatePoints u (currentPoints r u w + 3)]"
  by (simp add: handleQuickAction_def Let_def selectPoints_def updatePoints_def
      currentPoints_def showToast_def split: option.splits)

lemma handleQuickAction_profiles:
  "update_error r = None \<Longrightarrow>
   profiles (fst (handleQuickAction r u a (w, s))) =
     updateRows (profiles w) u (currentPoints r u w + 3)"
  by (simp add: handleQuickAction_def Let_def selectPoints_def updatePoints_def
      currentPoints_def showToast_def)

lemma handleJournalSubmit_requests:
  assumes "\<not> isBlank (journalText s)" "insert_error r = None"
  shows "requests (fst (handleJournalSubmit r u (w, s))) =
     requests w @ [InsertJournal (journalEntryOf u (journalText s)), SelectPoints u,
                   UpdatePoints u (currentPoints r u w + 5)] @
     (if update_error r = None
      then [InvokeChat (journalText s) (fst (analyzeMood (journalText s)))] else [])"
  using assms
  by (simp add: handleJournalSubmit_def Let_def selectPoints_def updatePoints_def
      currentPoints_def showToast_def journalCatch_def split: option.splits sum.splits)

lemma handleJournalSubmit_profiles:
  assumes "\<not> isBlank (journalText s)" "insert_error r = None" "update_error r = None"
  shows "profiles (fst (handleJournalSubmit r u (w, s))) =
     updateRows (profiles w) u (currentPoints r u w + 5)"
  using assms
  by (simp add: handleJournalSubmit_def Let_def selectPoints_def updatePoints_def
      currentPoints_def showToast_def journalCatch_def split: sum.splits)

lemma handleJournalSubmit_entries:
  assumes "\<not> isBlank (journalText s)" "insert_error r = None"
  shows "journal_entries (fst (handleJournalSubmit r u (w, s))) =
     journal_entries w @ [journalEntryOf u (journalText s)]"
  using assms
  by (simp add: handleJournalSubmit_def Let_def selectPoints_def updatePoints_def
      showToast_def journalCatch_def split: option.splits sum.splits)

lemma handleSubmit_requests:
  assumes "subject (formData s) \<noteq> []" "date (formData s) \<noteq> None"
    "maxMarks (formData s) \<noteq> []" "targetMarks (formData s) \<noteq> []"
    "\<not> jsGreater (parseInt (targetMarks (formData s))) (parseInt (maxMarks (formData s)))"
    "insert_error r = None"
  shows "requests (fst (handleSubmit r u (w, s))) =
     requests w @ [InsertExam (examRowOf u (formData s) (parseInt (maxMarks (formData s)))
                                 (parseInt (targetMarks (formData s)))),
                   SelectPoints u, UpdatePoints u (currentPoints r u w + 2)]"
  using assms
  by (simp add: handleSubmit_def Let_def selectPoints_def updatePoints_def
      currentPoints_def showToast_def split: option.splits)

lemma handleSubmit_profiles:
  assumes "subject (formData s) \<noteq> []" "date (formData s) \<noteq> None"
    "maxMarks (formData s) \<noteq> []" "targetMarks (formData s) \<noteq> []"
    "\<not> jsGreater (parseInt (targetMarks (formData s))) (parseInt (maxMarks (formData s)))"
    "insert_error r = None" "update_error r = None"
  shows "profiles (fst (handleSubmit r u (w, s))) =
     updateRows (profiles w) u (currentPoints r u w + 2)"
  using assms
  by (auto simp: handleSubmit_def Let_def selectPoints_def updatePoints_def
      currentPoints_def showToast_def)


lemma handleJournalSubmit_failure:
  assumes "\<not> isBlank (journalText s)" "insert_error r = None"
    and "update_error r = Some e \<or> (update_error r = None \<and> chat_result r = Inl e)"
  shows "toasts (fst (handleJournalSubmit r u (w, s))) =
           toasts w @ [\<lparr>title = ''Error'',
                        description = messageOr e ''Failed to save journal entry'',
                        destructive = True\<rparr>]"
    and "isLoading (snd (handleJournalSubmit r u (w, s))) = False"
    and "journalText (snd (handleJournalSubmit r u (w, s))) = journalText s"
  using assms
  by (auto simp: handleJournalSubmit_def Let_def selectPoints_def updatePoints_def
      showToast_def journalCatch_def)

text \<open>
  Claim C7. Every rewarded action reads the wellness points with a select and then writes
  back, with an update, the value read plus a fixed delta: 3 for a quick action, 5 for a
  journal submission whose insert succeeded, 2 for an exam whose form was accepted and
  whose insert succeeded. These are the only requests about the points, and when the
  update is applied the stored value is the value read plus the delta.
\<close>

theorem points_read_then_write:
  "requests (fst (handleQuickAction r u a (w, s))) =
     requests w @ [SelectPoints u, UpdatePoints u (currentPoints r u w + 3)] \<and>
   (update_error r = None \<longrightarrow>
      profiles (fst (handleQuickAction r u a (w, s))) =
        updateRows (profiles w) u (currentPoints r u w + 3)) \<and>
   (\<not> isBlank (journalText s) \<and> insert_error r = None \<longrightarrow>
      requests (fst (handleJournalSubmit r u (w, s))) =
        requests w @ [InsertJournal (journalEntryOf u (journalText s)), SelectPoints u,
                      UpdatePoints u (currentPoints r u w + 5)] @
        (if update_error r = None
         then [InvokeChat (journalText s) (fst (analyzeMood (journalText s)))] else []) \<and>
      (update_error r = None \<longrightarrow>
         profiles (fst (handleJournalSubmit r u (w, s))) =
           updateRows (profiles w) u (currentPoints r u w + 5))) \<and>
   (subject (formData ms) \<noteq> [] \<and> date (formData ms) \<noteq> None \<and>
    maxMarks (formData ms) \<noteq> [] \<and> targetMarks (formData ms) \<noteq> [] \<and>
    \<not> jsGreater (parseInt (targetMarks (formData ms))) (parseInt (maxMarks (formData ms))) \<and>
    insert_error r = None \<longrightarrow>
      requests (fst (handleSubmit r u (w, ms))) =
        requests w @ [InsertExam (examRowOf u (formData ms) (parseInt (maxMarks (formData ms)))
                                    (parseInt (targetMarks (formData ms)))),
                      SelectPoints u, UpdatePoints u (currentPoints r u w + 2)] \<and>
      (update_error r = None \<longrightarrow>
         profiles (fst (handleSubmit r u (w, ms))) =
           updateRows (profiles w) u (currentPoints r u w + 2)))"
  using handleQuickAction_requests [of r u a w s] handleQuickAction_profiles [of r u a w s]
    handleJournalSubmit_requests [of s r u w] handleJournalSubmit_profiles [of s r u w]
    handleSubmit_requests [of ms r u w] handleSubmit_profiles [of ms r u w]
  by blast

lemma isBlank_example: "\<not> isBlank (journalText cardExample)"
  by (simp add: cardExample_def isWhitespace_def)

lemma currentPoints_example: "currentPoints remoteOk ''u1'' worldExample = 10"
  by (simp add: currentPoints_def selectPoints_def remoteOk_def worldExample_def
      selectSingle_def pointsOrZero_def)

text \<open>Witness for C7: a user with 10 points ends with 13, 15 and 12 points.\<close>

theorem points_read_then_write_witness:
  "profiles (fst (handleQuickAction remoteOk ''u1'' breathing (worldExample, cardExample))) =
     [(''u1'', Some 13)] \<and>
   profiles (fst (handleJournalSubmit remoteOk ''u1'' (worldExample, cardExample))) =
     [(''u1'', Some 15)] \<and>
   profiles (fst (handleSubmit remoteOk ''u1''
       (worldExample, \<lparr>formData = formValid, loading = False\<rparr>))) = [(''u1'', Some 12)]"
proof -
  let ?ms = "\<lparr>formData = formValid, loading = False\<rparr>"
  note inst = points_read_then_write [of remoteOk "''u1''" breathing worldExample cardExample "?ms"]
  have ok: "update_error remoteOk = None" "insert_error remoteOk = None"
    by (simp_all add: remoteOk_def)
  have form: "subject (formData ?ms) \<noteq> []" "date (formData ?ms) \<noteq> None"
    "maxMarks (formData ?ms) \<noteq> []" "targetMarks (formData ?ms) \<noteq> []"
    "\<not> jsGreater (parseInt (targetMarks (formData ?ms))) (parseInt (maxMarks (formData ?ms)))"
    by (simp_all add: formValid_def parseInt_examples jsGreater_def)
  have upd: "updateRows (profiles worldExample) ''u1'' v = [(''u1'', Some v)]" for v
    by (simp add: updateRows_def worldExample_def)
  from inst ok
  have "profiles (fst (handleQuickAction remoteOk ''u1'' breathing (worldExample, cardExample))) =
          updateRows (profiles worldExample) ''u1'' (currentPoints remoteOk ''u1'' worldExample + 3)"
    by blast
  moreover from inst ok isBlank_example
  have "profiles (fst (handleJournalSubmit remoteOk ''u1'' (worldExample, cardExample))) =
          updateRows (profiles worldExample) ''u1'' (currentPoints remoteOk ''u1'' worldExample + 5)"
    by blast
  moreover from inst ok form
  have "profiles (fst (handleSubmit remoteOk ''u1'' (worldExample, ?ms))) =
          updateRows (profiles worldExample) ''u1'' (currentPoints remoteOk ''u1'' worldExample + 2)"
    by blast
  ultimately show ?thesis
    by (simp add: upd currentPoints_example)
qed

text \<open>The update stores the value computed from the earlier read, whatever is stored by
  then: when two actions read before either writes, one delta is lost.\<close>

lemma filter_updateRows:
  "filter (\<lambda>row. fst row = u) (updateRows rows u v) =
     map (\<lambda>row. (fst row, Some v)) (filter (\<lambda>row. fst row = u) rows)"
  by (induction rows) (auto simp: updateRows_def)

lemma selectSingle_updateRows:
  "selectSingle rows u = Some p \<Longrightarrow> selectSingle (updateRows rows u v) u = Some (Some v)"
  by (auto simp: selectSingle_def filter_updateRows split: list.splits)

lemma interleaved_updates_lose_one:
  assumes "selectSingle rows u = Some (Some p)"
  shows "(let read1 = pointsOrZero (selectSingle rows u);
              read2 = pointsOrZero (selectSingle rows u);
              rows1 = updateRows rows u (read1 + 5);
              rows2 = updateRows rows1 u (read2 + 3)
          in selectSingle rows2 u) = Some (Some (p + 3))"
  using assms
  by (simp add: Let_def pointsOrZero_def selectSingle_updateRows [OF selectSingle_updateRows])

section \<open>Journal submission\<close>

text \<open>
  Claim C8. When the insert of the journal entry succeeds and the update of the points or
  the call of the chat function then fails, the entry stays in the table: the requests of
  the action are the insert, the select, the update and, if the update succeeded, the
  call of the chat function, with nothing after the failure, and the failure shows one
  error notification.
\<close>

theorem journal_entry_kept_after_failure:
  assumes "\<not> isBlank (journalText s)" and "insert_error r = None"
    and "update_error r = Some e \<or> (update_error r = None \<and> chat_result r = Inl e)"
  shows "journal_entries (fst (handleJournalSubmit r u (w, s))) =
           journal_entries w @ [journalEntryOf u (journalText s)] \<and>
         requests (fst (handleJournalSubmit r u (w, s))) =
           requests w @ [InsertJournal (journalEntryOf u (journalText s)), SelectPoints u,
                         UpdatePoints u (currentPoints r u w + 5)] @
           (if update_error r = None
            then [InvokeChat (journalText s) (fst (analyzeMood (journalText s)))] else []) \<and>
         toasts (fst (handleJournalSubmit r u (w, s))) =
           toasts w @ [\<lparr>title = ''Error'',
                        description = messageOr e ''Failed to save journal entry'',
                        destructive = True\<rparr>] \<and>
         isLoading (snd (handleJournalSubmit r u (w, s))) = False"
  using handleJournalSubmit_entries [OF assms(1,2)] handleJournalSubmit_requests [OF assms(1,2)]
    handleJournalSubmit_failure(1,2) [OF assms]
  by simp

text \<open>Witness for C8: the update fails, and the call of the chat function fails.\<close>

theorem journal_entry_kept_after_failure_witness:
  "journal_entries (fst (handleJournalSubmit remoteUpdateFails ''u1'' (worldExample, cardExample))) =
     [\<lparr>user_id = ''u1'', content = ''My EXAM deadline makes me nervous'',
       mood_score = 4, mood_name = Stressed\<rparr>] \<and>
   toasts (fst (handleJournalSubmit remoteUpdateFails ''u1'' (worldExample, cardExample))) =
     [\<lparr>title = ''Error'', description = ''permission denied'', destructive = True\<rparr>] \<and>
   journal_entries (fst (handleJournalSubmit remoteChatFails ''u1'' (worldExample, cardExample))) =
     [\<lparr>user_id = ''u1'', content = ''My EXAM deadline makes me nervous'',
       mood_score = 4, mood_name = Stressed\<rparr>] \<and>
   toasts (fst (handleJournalSubmit remoteChatFails ''u1'' (worldExample, cardExample))) =
     [\<lparr>title = ''Error'', description = ''Edge Function returned a non-2xx status code'',
       destructive = True\<rparr>]"
proof -
  have entry: "journalEntryOf ''u1'' (journalText cardExample) =
      \<lparr>user_id = ''u1'', content = ''My EXAM deadline makes me nervous'',
       mood_score = 4, mood_name = Stressed\<rparr>"
    by code_simp
  have a: "insert_error remoteUpdateFails = None" "insert_error remoteChatFails = None"
    by (simp_all add: remoteUpdateFails_def remoteChatFails_def remoteOk_def)
  have b: "update_error remoteUpdateFails = Some ''permission denied'' \<or>
           (update_error remoteUpdateFails = None \<and>
            chat_result remoteUpdateFails = Inl ''permission denied'')"
    by (simp add: remoteUpdateFails_def)
  have c: "update_error remoteChatFails = Some ''Edge Function returned a non-2xx status code'' \<or>
           (update_error remoteChatFails = None \<and>
            chat_result remoteChatFails = Inl ''Edge Function returned a non-2xx status code'')"
    by (simp add: remoteChatFails_def remoteOk_def)
  from journal_entry_kept_after_failure [OF isBlank_example a(1) b, of "''u1''" worldExample]
    journal_entry_kept_after_failure [OF isBlank_example a(2) c, of "''u1''" worldExample]
  show ?thesis
    by (simp add: entry worldExample_def messageOr_def)
qed

section \<open>The chat function\<close>

text \<open>No scope that encloses the \<open>catch\<close> block declares \<open>mood\<close>, so the block throws
  before it builds a response.\<close>

lemma catchBlock_throws: "catchBlock apiKey = Throw (ReferenceError ''mood is not defined'')"
  by (simp add: catchBlock_def resolve_def catchScope_def handlerScope_def moduleScope_def)

lemma serveHandler_failure_throws:
  "http_method req \<noteq> ''OPTIONS'' \<Longrightarrow> tryBlock apiKey req up = Throw e \<Longrightarrow>
   serveHandler apiKey req up = Throw (ReferenceError ''mood is not defined'')"
  by (simp add: serveHandler_def catchBlock_throws)

lemma tryBlock_no_key: "json req = Some flds \<Longrightarrow>
   tryBlock None req up = Throw (Error ''OpenAI API key not configured'')"
  by (simp add: tryBlock_def resolve_def tryScope_def handlerScope_def moduleScope_def falsy_def)

lemma serveHandler_no_fallback:
  "serveHandler apiKey req up = Return resp \<Longrightarrow>
   response resp = None \<or> (\<exists>text. response resp = Some (Upstream text))"
  by (auto simp: serveHandler_def catchBlock_throws tryBlock_def Let_def
      split: if_splits option.splits completion.splits upstream.splits)

text \<open>
  Claim C6. The claim is that on a failure the function returns the fixed message of the
  mood. At a request with mood Stressed and no API key configured, the handler instead
  throws a \<open>ReferenceError\<close> from its \<open>catch\<close> block and returns no message.
\<close>

theorem serveHandler_missing_key_stressed:
  "serveHandler None requestStressed (Completion ''ok'') =
     Throw (ReferenceError ''mood is not defined'')"
  by (simp add: serveHandler_def catchBlock_throws requestStressed_def tryBlock_no_key)

end
